theory Spec2Isabelle
  imports Main
begin

section \<open>Go runtime behaviour used by the table code\<close>

text \<open>
  A run-time panic is a value of type \<open>error\<close>; a fallible function returns
  \<open>error + 'a\<close> with \<open>Inl\<close> for the panic. A panic aborts the call, so \<open>Inl\<close> carries no
  successor state.
\<close>

datatype error =
    SliceBounds   \<comment> \<open>slice bounds out of range\<close>
  | IndexRange    \<comment> \<open>index out of range\<close>
  | Panic string  \<comment> \<open>explicit \<open>panic(msg)\<close>\<close>

text \<open>\<open>xs[lo:]\<close>: panics unless \<open>0 \<le> lo \<le> len(xs)\<close>.\<close>

definition slice_from :: "'a list \<Rightarrow> int \<Rightarrow> error + 'a list" where
  "slice_from xs lo =
     (if lo < 0 \<or> int (length xs) < lo then Inl SliceBounds else Inr (drop (nat lo) xs))"

text \<open>
  \<open>xs[lo:hi]\<close>: panics unless \<open>0 \<le> lo \<le> hi \<le> cap(xs)\<close>. It is only applied to slices
  made by \<open>make([]int, n)\<close>, whose capacity is their length.
\<close>

definition slice :: "'a list \<Rightarrow> int \<Rightarrow> int \<Rightarrow> error + 'a list" where
  "slice xs lo hi =
     (if lo < 0 \<or> hi < lo \<or> int (length xs) < hi then Inl SliceBounds
      else Inr (take (nat hi - nat lo) (drop (nat lo) xs)))"

text \<open>
  \<open>copy(xs[k:], src)\<close> seen from \<open>xs\<close>: the first \<open>min(len(xs) - k, len(src))\<close> elements
  of \<open>src\<close> overwrite \<open>xs\<close> from position \<open>k\<close> on; \<open>copy\<close> is safe for overlapping slices.
\<close>

definition copy_at :: "'a list \<Rightarrow> nat \<Rightarrow> 'a list \<Rightarrow> 'a list" where
  "copy_at xs k src = take k xs @ take (length xs - k) src @ drop (k + length src) xs"

text \<open>
  Go's \<open>int\<close> has 64 bits on the platforms of the toolkit and its sums and differences
  wrap around. A Go \<open>int\<close> is modelled by an \<open>int\<close>, and \<open>wrap64\<close> is the value that a
  64-bit result has. The row and column offsets, \<open>xScroll\<close>, the selection and the
  numbers of fixed rows and columns are stored as the caller passes them (\<open>SetOffset\<close>,
  \<open>SetXScroll\<close>, \<open>Select\<close>, \<open>SetFixed\<close>), so the layout, which is the first to compute
  with them, can wrap: the sums and differences of \<open>clampOffsets\<close> and
  \<open>calculateVisibleRows\<close> that have one of these fields as an operand are written with
  \<open>wrap64\<close>. The two exceptions, \<open>t.columnOffset++\<close> and
  \<open>t.selectedColumn - t.fixedColumns\<close>, are explained where they occur. Sums of column
  widths, row and column counts and screen sizes are sizes of slices in memory and of
  the screen; they are added and subtracted as they are. So are the indices in the
  functions that \<open>clampOffsets\<close> and \<open>Draw\<close> call: an index that would wrap is outside
  its slice before and after wrapping, and the access panics in both cases. Validation
  and navigation step the selection by one cell or one page; there the model adds without
  wrap-around, which is what the code does unless the selection is within a page of the
  64-bit limits.
\<close>

definition wrap64 :: "int \<Rightarrow> int" where
  "wrap64 x = (x + 2 ^ 63) mod 2 ^ 64 - 2 ^ 63"

text \<open>Go's integer division truncates towards zero.\<close>

definition go_div :: "int \<Rightarrow> int \<Rightarrow> int" where
  "go_div a b = (if (a < 0) = (b < 0) then \<bar>a\<bar> div \<bar>b\<bar> else - (\<bar>a\<bar> div \<bar>b\<bar>))"

section \<open>Table cells\<close>

text \<open>
  The fields of \<open>TableCell\<close> that the layout, scrolling and selection code reads. Colours,
  styles, the reference object and the click handler are left out. \<open>cellWidth\<close> is the
  unexported field \<open>width\<close>, the effective width computed by \<open>updateWidth\<close>.
\<close>

record TableCell =
  Text :: string
  Align :: int
  MaxWidth :: int
  Expansion :: int
  Transparent :: bool
  NotSelectable :: bool
  cellWidth :: int

text \<open>The zero value \<open>&TableCell{}\<close>.\<close>

definition emptyCell :: TableCell where
  "emptyCell = \<lparr>Text = [], Align = 0, MaxWidth = 0, Expansion = 0, Transparent = False,
                 NotSelectable = False, cellWidth = 0\<rparr>"

text \<open>
  \<open>updateWidth\<close>; the display width of the text, \<open>TaggedStringWidth\<close>, is a function of
  another file and is taken as the parameter \<open>tsw\<close>.
\<close>

definition updateWidth :: "(string \<Rightarrow> int) \<Rightarrow> TableCell \<Rightarrow> TableCell" where
  "updateWidth tsw c =
     (let textWidth = tsw (Text c) in
      if MaxWidth c > 0 \<and> textWidth > MaxWidth c then c\<lparr>cellWidth := MaxWidth c\<rparr>
      else c\<lparr>cellWidth := textWidth\<rparr>)"

text \<open>
  \<open>SetExpansion\<close> returns the cell as it is after the call together with the panic, if
  one was raised.
\<close>

definition SetExpansion :: "int \<Rightarrow> TableCell \<Rightarrow> TableCell \<times> error option" where
  "SetExpansion expansion c =
     (if expansion < 0 then (c, Some (Panic ''Table cell expansion values may not be negative''))
      else (c\<lparr>Expansion := expansion\<rparr>, None))"

definition SetSelectable_cell :: "bool \<Rightarrow> TableCell \<Rightarrow> TableCell" where
  "SetSelectable_cell selectable c = c\<lparr>NotSelectable := \<not> selectable\<rparr>"

section \<open>The default table content\<close>

text \<open>
  \<open>cells\<close> is \<open>[][]*TableCell\<close>, rows first; a \<open>nil\<close> pointer is \<open>None\<close>. Cells are
  held by value: no property below depends on two positions sharing one cell object.
\<close>

record tableDefaultContent =
  cells :: "TableCell option list list"
  lastColumn :: int

definition Clear :: "tableDefaultContent \<Rightarrow> tableDefaultContent" where
  "Clear t = t\<lparr>cells := [], lastColumn := -1\<rparr>"

definition GetCell :: "tableDefaultContent \<Rightarrow> int \<Rightarrow> int \<Rightarrow> TableCell option" where
  "GetCell t row column =
     (if row < 0 \<or> column < 0 \<or> row \<ge> int (length (cells t))
         \<or> column \<ge> int (length (cells t ! nat row)) then None
      else cells t ! nat row ! nat column)"

definition GetRowCount :: "tableDefaultContent \<Rightarrow> int" where
  "GetRowCount t = int (length (cells t))"

definition GetColumnCount :: "tableDefaultContent \<Rightarrow> int" where
  "GetColumnCount t = (if length (cells t) = 0 then 0 else lastColumn t + 1)"

text \<open>
  \<open>SetCell\<close> (the revision that also refreshes the cell's width). Indexing \<open>t.cells[row]\<close>
  with a negative row, or the row with a negative column, panics.
\<close>

definition SetCell ::
  "(string \<Rightarrow> int) \<Rightarrow> int \<Rightarrow> int \<Rightarrow> TableCell \<Rightarrow> tableDefaultContent \<Rightarrow> error + tableDefaultContent"
where
  "SetCell tsw row column cell t =
     (let cs = (if row \<ge> int (length (cells t))
                then cells t @ replicate (nat (row - int (length (cells t)) + 1)) []
                else cells t)
      in if row < 0 then Inl IndexRange
         else
           let r = cs ! nat row;
               rowLen = int (length r);
               r' = (if column \<ge> rowLen
                     then r @ replicate (nat (column - rowLen)) (Some emptyCell) @ [None]
                     else r)
           in if column < 0 then Inl IndexRange
              else Inr (t\<lparr>cells := cs[nat row := r'[nat column := Some (updateWidth tsw cell)]],
                          lastColumn := (if column > lastColumn t then column else lastColumn t)\<rparr>))"

definition RemoveRow :: "int \<Rightarrow> tableDefaultContent \<Rightarrow> tableDefaultContent" where
  "RemoveRow row t =
     (if row < 0 \<or> row \<ge> int (length (cells t)) then t
      else t\<lparr>cells := take (nat row) (cells t) @ drop (nat (row + 1)) (cells t)\<rparr>)"

definition removeColumnRow :: "int \<Rightarrow> TableCell option list \<Rightarrow> TableCell option list" where
  "removeColumnRow column r =
     (if column < 0 \<or> column \<ge> int (length r) then r
      else take (nat column) r @ drop (nat (column + 1)) r)"

definition RemoveColumn :: "int \<Rightarrow> tableDefaultContent \<Rightarrow> tableDefaultContent" where
  "RemoveColumn column t =
     (let cs = map (removeColumnRow column) (cells t)
      in t\<lparr>cells := cs,
           lastColumn := (if column \<ge> 0 \<and> column \<le> lastColumn t then lastColumn t - 1
                          else lastColumn t)\<rparr>)"

text \<open>
  \<open>InsertRow\<close>: extend by one, \<open>copy(t.cells[row+1:], t.cells[row:])\<close>, then clear the
  slot. Only the upper bound is guarded, so the two slice expressions are evaluated for
  a negative \<open>row\<close> as well.
\<close>

definition InsertRow :: "int \<Rightarrow> tableDefaultContent \<Rightarrow> error + tableDefaultContent" where
  "InsertRow row t =
     (if row \<ge> int (length (cells t)) then Inr t
      else
        let ext = cells t @ [[]] in
        case slice_from ext (row + 1) of
          Inl e \<Rightarrow> Inl e
        | Inr dst \<Rightarrow>
            (case slice_from ext row of
               Inl e \<Rightarrow> Inl e
             | Inr src \<Rightarrow> Inr (t\<lparr>cells := (copy_at ext (nat (row + 1)) src)[nat row := []]\<rparr>)))"

text \<open>The body of the loop of \<open>InsertColumn\<close>, for one row.\<close>

definition insertColumnRow :: "int \<Rightarrow> TableCell option list \<Rightarrow> error + TableCell option list" where
  "insertColumnRow column r =
     (if column \<ge> int (length r) then Inr r
      else
        let ext = r @ [None] in
        case slice_from ext (column + 1) of
          Inl e \<Rightarrow> Inl e
        | Inr dst \<Rightarrow>
            (case slice_from ext column of
               Inl e \<Rightarrow> Inl e
             | Inr src \<Rightarrow> Inr ((copy_at ext (nat (column + 1)) src)[nat column := Some emptyCell])))"

fun insertColumnRows ::
  "int \<Rightarrow> TableCell option list list \<Rightarrow> error + TableCell option list list"
where
  "insertColumnRows column [] = Inr []"
| "insertColumnRows column (r # rs) =
     (case insertColumnRow column r of
        Inl e \<Rightarrow> Inl e
      | Inr r' \<Rightarrow>
          (case insertColumnRows column rs of
             Inl e \<Rightarrow> Inl e
           | Inr rs' \<Rightarrow> Inr (r' # rs')))"

definition InsertColumn :: "int \<Rightarrow> tableDefaultContent \<Rightarrow> error + tableDefaultContent" where
  "InsertColumn column t =
     (case insertColumnRows column (cells t) of
        Inl e \<Rightarrow> Inl e
      | Inr cs \<Rightarrow> Inr (t\<lparr>cells := cs\<rparr>))"


section \<open>The table\<close>

text \<open>
  The fields of \<open>Table\<close> read or written by scrolling, selection and layout. The table
  data is the default content created by \<open>NewTable\<close>. \<open>innerRectWidth\<close> and
  \<open>innerRectHeight\<close> stand for the width and height that \<open>GetInnerRect\<close> of the embedded
  \<open>Box\<close> returns (the box is outside the modelled files). Handlers and styles are left
  out. Every method holds the table's lock for its whole body, so a call is one step from
  state to state and the lock itself is not modelled.
\<close>

record Table =
  borders :: bool
  content :: tableDefaultContent
  fixedRows :: int
  fixedColumns :: int
  rowsSelectable :: bool
  columnsSelectable :: bool
  selectedRow :: int
  selectedColumn :: int
  clampToSelection :: bool
  wrapHorizontally :: bool
  wrapVertically :: bool
  rowOffset :: int
  columnOffset :: int
  xScroll :: int
  trackEnd :: bool
  visibleRows :: int
  innerRectWidth :: int
  innerRectHeight :: int

definition NewTable :: Table where
  "NewTable = \<lparr>borders = False, content = \<lparr>cells = [], lastColumn = -1\<rparr>,
                fixedRows = 0, fixedColumns = 0, rowsSelectable = False,
                columnsSelectable = False, selectedRow = 0, selectedColumn = 0,
                clampToSelection = False, wrapHorizontally = False, wrapVertically = False,
                rowOffset = 0, columnOffset = 0, xScroll = 0, trackEnd = False,
                visibleRows = 0, innerRectWidth = 0, innerRectHeight = 0\<rparr>"

definition SetBorders :: "bool \<Rightarrow> Table \<Rightarrow> Table" where
  "SetBorders show t = t\<lparr>borders := show\<rparr>"

definition SetFixed :: "int \<Rightarrow> int \<Rightarrow> Table \<Rightarrow> Table" where
  "SetFixed rows columns t = t\<lparr>fixedRows := rows, fixedColumns := columns, columnOffset := 0\<rparr>"

definition SetSelectable :: "bool \<Rightarrow> bool \<Rightarrow> Table \<Rightarrow> Table" where
  "SetSelectable rows columns t = t\<lparr>rowsSelectable := rows, columnsSelectable := columns\<rparr>"

definition GetSelection :: "Table \<Rightarrow> int \<times> int" where
  "GetSelection t = (selectedRow t, selectedColumn t)"

definition Select :: "int \<Rightarrow> int \<Rightarrow> Table \<Rightarrow> Table" where
  "Select row column t = t\<lparr>selectedRow := row, selectedColumn := column, clampToSelection := True\<rparr>"

definition SetOffset :: "int \<Rightarrow> int \<Rightarrow> Table \<Rightarrow> Table" where
  "SetOffset row column t = t\<lparr>rowOffset := row, columnOffset := column, trackEnd := False\<rparr>"

definition GetOffset :: "Table \<Rightarrow> int \<times> int" where
  "GetOffset t = (rowOffset t, columnOffset t)"

definition SetXScroll :: "int \<Rightarrow> Table \<Rightarrow> Table" where
  "SetXScroll x t = t\<lparr>xScroll := x, columnOffset := -1, trackEnd := False\<rparr>"

definition GetXScroll :: "Table \<Rightarrow> int" where
  "GetXScroll t = xScroll t"

definition SetWrapSelection :: "bool \<Rightarrow> bool \<Rightarrow> Table \<Rightarrow> Table" where
  "SetWrapSelection vertical horizontal t =
     t\<lparr>wrapHorizontally := horizontal, wrapVertically := vertical\<rparr>"

subsection \<open>Column widths and horizontal offsets\<close>

definition effectiveColumnsWidth :: "Table \<Rightarrow> int list \<Rightarrow> int" where
  "effectiveColumnsWidth t widths =
     (let columnsWidth = sum_list widths
      in if borders t then columnsWidth + int (length widths) else columnsWidth)"

text \<open>The inner loop of \<open>calculateColumnWidths\<close>: the widest cell of column \<open>i\<close>.\<close>

definition columnMaxWidth :: "tableDefaultContent \<Rightarrow> int \<Rightarrow> int" where
  "columnMaxWidth c i =
     foldl (\<lambda>maxWidth j. case GetCell c (int j) i of
                             None \<Rightarrow> maxWidth
                           | Some cell \<Rightarrow> max maxWidth (cellWidth cell))
           0 [0..<nat (GetRowCount c)]"

text \<open>\<open>make([]int, columnCount)\<close> panics for a negative length.\<close>

definition calculateColumnWidths :: "Table \<Rightarrow> error + int list" where
  "calculateColumnWidths t =
     (let columnCount = GetColumnCount (content t)
      in if columnCount < 0 then Inl (Panic ''makeslice: len out of range'')
         else Inr (map (\<lambda>i. columnMaxWidth (content t) (int i)) [0..<nat columnCount]))"

text \<open>
  The loop of \<open>effectiveXOffset\<close>, \<open>for i := 0; i < t.columnOffset; i++\<close>, with the running
  index and sum; \<open>columnWidths[i+t.fixedColumns]\<close> panics out of range.
\<close>

function effectiveXOffset_loop :: "int list \<Rightarrow> int \<Rightarrow> int \<Rightarrow> int \<Rightarrow> int \<Rightarrow> error + int" where
  "effectiveXOffset_loop columnWidths fixedCols colOffset i xOffset =
     (if i < colOffset then
        (if i + fixedCols < 0 \<or> i + fixedCols \<ge> int (length columnWidths) then Inl IndexRange
         else effectiveXOffset_loop columnWidths fixedCols colOffset (i + 1)
                (xOffset + columnWidths ! nat (i + fixedCols)))
      else Inr xOffset)"
  by pat_completeness auto
termination
  by (relation "measure (\<lambda>(columnWidths, fixedCols, colOffset, i, xOffset). nat (colOffset - i))") auto

declare effectiveXOffset_loop.simps [simp del]

definition effectiveXOffset :: "Table \<Rightarrow> int list \<Rightarrow> error + int" where
  "effectiveXOffset t columnWidths =
     (if columnOffset t \<noteq> -1 then
        (case effectiveXOffset_loop columnWidths (fixedColumns t) (columnOffset t) 0 0 of
           Inl e \<Rightarrow> Inl e
         | Inr xOffset \<Rightarrow> Inr (xOffset + columnOffset t))
      else Inr (xScroll t))"

definition MaximumXOffset :: "Table \<Rightarrow> error + int" where
  "MaximumXOffset t =
     (let width = innerRectWidth t in
      case calculateColumnWidths t of
        Inl e \<Rightarrow> Inl e
      | Inr columnWidths \<Rightarrow>
          (case slice columnWidths 0 (fixedColumns t) of
             Inl e \<Rightarrow> Inl e
           | Inr fixedWidths \<Rightarrow>
               let fixedColumnsWidth = effectiveColumnsWidth t fixedWidths;
                   effectiveWidth = width - fixedColumnsWidth
               in (case slice_from columnWidths (fixedColumns t) of
                     Inl e \<Rightarrow> Inl e
                   | Inr normalWidths \<Rightarrow>
                       let normalColumnsWidth = effectiveColumnsWidth t normalWidths
                       in Inr (max 0 (normalColumnsWidth - effectiveWidth + 1)))))"

definition normalColumnLeftRightPositions :: "Table \<Rightarrow> int list \<Rightarrow> int \<Rightarrow> error + (int \<times> int)" where
  "normalColumnLeftRightPositions t columnWidths columnIndex =
     (case slice columnWidths (fixedColumns t) columnIndex of
        Inl e \<Rightarrow> Inl e
      | Inr l \<Rightarrow>
          (case slice columnWidths (fixedColumns t) (columnIndex + 1) of
             Inl e \<Rightarrow> Inl e
           | Inr r \<Rightarrow>
               let left = effectiveColumnsWidth t l;
                   right = effectiveColumnsWidth t r
               in Inr (left, if borders t then right + 1 else right)))"

subsection \<open>Selection validation\<close>

text \<open>The test \<open>cell != nil && !cell.NotSelectable\<close> on the cell at a position.\<close>

definition selectableAt :: "tableDefaultContent \<Rightarrow> int \<Rightarrow> int \<Rightarrow> bool" where
  "selectableAt c row column =
     (case GetCell c row column of None \<Rightarrow> False | Some cell \<Rightarrow> \<not> NotSelectable cell)"

text \<open>
  The loop \<open>for t.selectedRow < rowCount\<close> of \<open>ensureValidSelection\<close>, on the pair
  (selected row, selected column).
\<close>

function ensureValidSelection_loop ::
  "tableDefaultContent \<Rightarrow> int \<Rightarrow> int \<Rightarrow> int \<Rightarrow> int \<Rightarrow> int \<times> int"
where
  "ensureValidSelection_loop c rowCount columnCount row column =
     (if row < rowCount \<and> \<not> selectableAt c row column then
        (if column + 1 > columnCount - 1
         then ensureValidSelection_loop c rowCount columnCount (row + 1) 0
         else ensureValidSelection_loop c rowCount columnCount row (column + 1))
      else (row, column))"
  by pat_completeness auto
termination
  by (relation "measures [\<lambda>(c, rowCount, columnCount, row, column). nat (rowCount - row),
                          \<lambda>(c, rowCount, columnCount, row, column). nat (columnCount - column)]")
     auto

declare ensureValidSelection_loop.simps [simp del]

text \<open>\<open>ensureValidSelection\<close> of the current table code, run by \<open>Draw\<close>.\<close>

definition ensureValidSelection :: "int \<Rightarrow> int \<Rightarrow> Table \<Rightarrow> Table" where
  "ensureValidSelection rowCount columnCount t =
     (if rowsSelectable t \<or> columnsSelectable t then
        let t1 = (if selectedRow t < 0 then t\<lparr>selectedRow := 0\<rparr> else t);
            (row, column) = ensureValidSelection_loop (content t1) rowCount columnCount
                              (selectedRow t1) (selectedColumn t1);
            t2 = t1\<lparr>selectedRow := row, selectedColumn := column\<rparr>;
            t3 = (if selectedColumn t2 < 0 then t2\<lparr>selectedColumn := 0\<rparr> else t2)
        in if selectedColumn t3 \<ge> columnCount then t3\<lparr>selectedColumn := columnCount - 1\<rparr> else t3
      else t)"

text \<open>The older revision of \<open>ensureValidSelection\<close> kept in \<open>table.go\<close>.\<close>

definition ensureValidSelection_table_go :: "int \<Rightarrow> int \<Rightarrow> Table \<Rightarrow> Table" where
  "ensureValidSelection_table_go rowCount columnCount t =
     (if rowsSelectable t \<or> columnsSelectable t then
        let t1 = (if selectedColumn t < 0 then t\<lparr>selectedColumn := 0\<rparr> else t);
            t2 = (if selectedRow t1 < 0 then t1\<lparr>selectedRow := 0\<rparr> else t1);
            (row, column) = ensureValidSelection_loop (content t2) rowCount columnCount
                              (selectedRow t2) (selectedColumn t2)
        in t2\<lparr>selectedRow := row, selectedColumn := column\<rparr>
      else t)"

subsection \<open>Offset resolution\<close>

text \<open>
  \<open>clampOffsets\<close> in three parts, in the order of the source: the row offset
  (\<open>clampOffsets_rows\<close>), the block guarded by
  \<open>t.clampToSelection && t.columnsSelectable\<close> (\<open>clampOffsets_selectedColumn\<close>), and the
  final limits of the horizontal offset (\<open>clampOffsets_limits\<close>). Each part is the
  sequence of the blocks of the source, one definition per block. Only the last two parts
  can panic.
\<close>

definition screenHeightRows :: "Table \<Rightarrow> int \<Rightarrow> int" where
  "screenHeightRows t height = (if borders t then go_div height 2 else height)"

text \<open>The block \<open>if t.clampToSelection && t.rowsSelectable { ... }\<close>.\<close>

definition rowOffset_toSelection :: "int \<Rightarrow> Table \<Rightarrow> Table" where
  "rowOffset_toSelection shr t =
     (if clampToSelection t \<and> rowsSelectable t then
        let ta = (if selectedRow t \<ge> fixedRows t
                     \<and> selectedRow t < wrap64 (fixedRows t + rowOffset t)
                  then t\<lparr>rowOffset := wrap64 (selectedRow t - fixedRows t), trackEnd := False\<rparr>
                  else t)
        in if wrap64 (wrap64 (selectedRow ta + 1) - rowOffset ta) \<ge> shr
           then ta\<lparr>rowOffset := wrap64 (wrap64 (selectedRow ta + 1) - shr), trackEnd := False\<rparr>
           else ta
      else t)"

text \<open>\<open>if t.rowOffset < 0 { t.rowOffset = 0 }\<close>, which the source runs twice.\<close>

definition rowOffset_floor :: "Table \<Rightarrow> Table" where
  "rowOffset_floor t = (if rowOffset t < 0 then t\<lparr>rowOffset := 0\<rparr> else t)"

text \<open>The two statements that set and then apply \<open>t.trackEnd\<close>.\<close>

definition rowOffset_trackEnd :: "int \<Rightarrow> int \<Rightarrow> Table \<Rightarrow> Table" where
  "rowOffset_trackEnd shr rowCount t =
     (let t3 = (if wrap64 (rowCount - rowOffset t) < shr then t\<lparr>trackEnd := True\<rparr> else t)
      in if trackEnd t3 then t3\<lparr>rowOffset := rowCount - shr\<rparr> else t3)"

definition clampOffsets_rows :: "int \<Rightarrow> int \<Rightarrow> Table \<Rightarrow> Table" where
  "clampOffsets_rows height rowCount t =
     (let shr = screenHeightRows t height;
          t1 = rowOffset_toSelection shr t;
          t2 = rowOffset_floor t1;
          t4 = rowOffset_trackEnd shr rowCount t2
      in rowOffset_floor t4)"

text \<open>
  The endless \<open>for\<close> of the discrete branch, on the value of \<open>t.columnOffset\<close>: it steps
  the offset to the right while the selection's right edge is beyond the width. The
  increment runs only when \<open>t.columnOffset < maxColumnOffset\<close>, so it does not wrap.
\<close>

function clampColumn_loop :: "Table \<Rightarrow> int list \<Rightarrow> int \<Rightarrow> int \<Rightarrow> int \<Rightarrow> error + int" where
  "clampColumn_loop t columnWidths effectiveWidth maxColumnOffset colOffset =
     (case slice columnWidths (wrap64 (fixedColumns t + colOffset))
             (wrap64 (selectedColumn t + 1)) of
        Inl e \<Rightarrow> Inl e
      | Inr s \<Rightarrow>
          (if colOffset \<ge> maxColumnOffset \<or> effectiveColumnsWidth t s > effectiveWidth then
             (if colOffset \<ge> maxColumnOffset then Inr colOffset
              else clampColumn_loop t columnWidths effectiveWidth maxColumnOffset (colOffset + 1))
           else Inr colOffset))"
  by pat_completeness auto
termination
  by (relation "measure (\<lambda>(t, columnWidths, effectiveWidth, maxColumnOffset, colOffset).
                            nat (maxColumnOffset - colOffset))") auto

declare clampColumn_loop.simps [simp del]

text \<open>
  Discrete mode, second \<open>if t.selectedColumn >= t.fixedColumns\<close>: the loop that moves the
  column offset until the right edge of the selection fits.
\<close>

definition columnOffset_rightEdge :: "int \<Rightarrow> int \<Rightarrow> Table \<Rightarrow> error + Table" where
  "columnOffset_rightEdge width columnCount t =
     (case calculateColumnWidths t of
        Inl e \<Rightarrow> Inl e
      | Inr columnWidths \<Rightarrow>
          (case slice columnWidths 0 (fixedColumns t) of
             Inl e \<Rightarrow> Inl e
           | Inr fixedWidths \<Rightarrow>
               let effectiveWidth = width - effectiveColumnsWidth t fixedWidths;
                   maxColumnOffset = wrap64 (wrap64 (columnCount - fixedColumns t) - 1)
               in (case clampColumn_loop t columnWidths effectiveWidth maxColumnOffset
                          (columnOffset t) of
                     Inl e \<Rightarrow> Inl e
                   | Inr colOffset \<Rightarrow> Inr (t\<lparr>columnOffset := colOffset\<rparr>))))"

text \<open>
  Discrete mode, the branch \<open>t.columnOffset != -1\<close>. The difference
  \<open>t.selectedColumn - t.fixedColumns\<close> is computed under the guard
  \<open>t.selectedColumn >= t.fixedColumns\<close>: it wraps only when \<open>t.fixedColumns\<close> is negative,
  and then \<open>columnWidths[0:t.fixedColumns]\<close> panics in the statement that follows, whatever
  the offset is.
\<close>

definition columnOffset_toSelection :: "int \<Rightarrow> int \<Rightarrow> Table \<Rightarrow> error + Table" where
  "columnOffset_toSelection width columnCount t =
     (let t1 = (if selectedColumn t \<ge> fixedColumns t
                  \<and> selectedColumn t < wrap64 (fixedColumns t + columnOffset t)
                then t\<lparr>columnOffset := selectedColumn t - fixedColumns t\<rparr> else t)
      in if selectedColumn t1 \<ge> fixedColumns t1
         then columnOffset_rightEdge width columnCount t1
         else Inr t1)"

text \<open>Continuous mode, the branch \<open>t.columnOffset == -1\<close>.\<close>

definition xScroll_toSelection :: "int \<Rightarrow> Table \<Rightarrow> error + Table" where
  "xScroll_toSelection width t =
     (if selectedColumn t \<ge> fixedColumns t then
        (case calculateColumnWidths t of
           Inl e \<Rightarrow> Inl e
         | Inr columnWidths \<Rightarrow>
             (case slice columnWidths 0 (fixedColumns t) of
                Inl e \<Rightarrow> Inl e
              | Inr fixedWidths \<Rightarrow>
                  let effectiveWidth = width - effectiveColumnsWidth t fixedWidths
                  in (case normalColumnLeftRightPositions t columnWidths (selectedColumn t) of
                        Inl e \<Rightarrow> Inl e
                      | Inr (left, right) \<Rightarrow>
                          if wrap64 (left - xScroll t) < 0 then Inr (t\<lparr>xScroll := left\<rparr>)
                          else if wrap64 (right - xScroll t) > effectiveWidth
                          then Inr (t\<lparr>xScroll := - (effectiveWidth - right)\<rparr>)
                          else Inr t)))
      else Inr t)"

definition clampOffsets_selectedColumn :: "int \<Rightarrow> int \<Rightarrow> Table \<Rightarrow> error + Table" where
  "clampOffsets_selectedColumn width columnCount t =
     (if clampToSelection t \<and> columnsSelectable t then
        (if columnOffset t \<noteq> -1 then columnOffset_toSelection width columnCount t
         else xScroll_toSelection width t)
      else Inr t)"

definition clampOffsets_limits :: "int \<Rightarrow> Table \<Rightarrow> error + Table" where
  "clampOffsets_limits columnCount t =
     (if columnOffset t = -1 then
        (case MaximumXOffset t of
           Inl e \<Rightarrow> Inl e
         | Inr maxX \<Rightarrow>
             let t1 = t\<lparr>xScroll := min maxX (xScroll t)\<rparr>
             in Inr (t1\<lparr>xScroll := max 0 (xScroll t1)\<rparr>))
      else
        let t1 = (if columnOffset t \<ge> wrap64 (columnCount - fixedColumns t)
                  then t\<lparr>columnOffset := wrap64 (wrap64 (columnCount - fixedColumns t) - 1)\<rparr>
                  else t)
        in Inr (if columnOffset t1 < 0 then t1\<lparr>columnOffset := 0\<rparr> else t1))"

definition clampOffsets :: "int \<Rightarrow> int \<Rightarrow> int \<Rightarrow> int \<Rightarrow> Table \<Rightarrow> error + Table" where
  "clampOffsets height width rowCount columnCount t =
     (case clampOffsets_selectedColumn width columnCount (clampOffsets_rows height rowCount t) of
        Inl e \<Rightarrow> Inl e
      | Inr t1 \<Rightarrow>
          (case clampOffsets_limits columnCount t1 of
             Inl e \<Rightarrow> Inl e
           | Inr t2 \<Rightarrow> Inr (t2\<lparr>clampToSelection := False\<rparr>)))"

subsection \<open>Visible rows\<close>

text \<open>
  Both loops of \<open>calculateVisibleRows\<close> have the shape
  \<open>for ; row < limit && tableHeight < height; row++\<close>; the first one with the limit
  \<open>min(fixedRows, rowCount)\<close>. The loop returns the rows and the height used so far.
\<close>

function visibleRows_loop ::
  "int \<Rightarrow> int \<Rightarrow> int \<Rightarrow> int \<Rightarrow> int \<Rightarrow> int list \<Rightarrow> int list \<times> int"
where
  "visibleRows_loop limit height rowStep row tableHeight rows =
     (if row < limit \<and> tableHeight < height
      then visibleRows_loop limit height rowStep (row + 1) (tableHeight + rowStep) (rows @ [row])
      else (rows, tableHeight))"
  by pat_completeness auto
termination
  by (relation "measure (\<lambda>(limit, height, rowStep, row, tableHeight, rows). nat (limit - row))")
     auto

declare visibleRows_loop.simps [simp del]

definition calculateVisibleRows :: "int \<Rightarrow> int \<Rightarrow> Table \<Rightarrow> error + (int list \<times> int list)" where
  "calculateVisibleRows height rowCount t =
     (let rowStep = (if borders t then 2 else 1)
      in if rowCount < 0 then Inl (Panic ''makeslice: len out of range'')
         else
           let allRows = map int [0..<nat rowCount];
               (rows1, tableHeight1) =
                  visibleRows_loop (min (fixedRows t) rowCount) height rowStep 0 0 [];
               (rows2, tableHeight2) =
                  visibleRows_loop rowCount height rowStep (wrap64 (fixedRows t + rowOffset t))
                    tableHeight1 rows1
           in Inr (rows2, allRows))"

subsection \<open>The layout part of \<open>Draw\<close>\<close>

text \<open>
  \<open>Draw\<close> up to the point where painting starts: it records the number of visible
  rows, validates the selection, resolves the offsets and computes the visible rows, the
  column widths, the horizontal offset \<open>xOffset\<close> and the width of the fixed columns.
\<close>

record layout =
  rows :: "int list"
  columnWidths :: "int list"
  xOffset :: int
  fixedColumnsWidth :: int

definition Draw_layout :: "Table \<Rightarrow> error + (Table \<times> layout)" where
  "Draw_layout t =
     (let width = innerRectWidth t;
          height = innerRectHeight t;
          t1 = (if borders t then t\<lparr>visibleRows := go_div height 2\<rparr>
                else t\<lparr>visibleRows := height\<rparr>);
          rowCount = GetRowCount (content t1);
          columnCount = GetColumnCount (content t1);
          t2 = ensureValidSelection rowCount columnCount t1
      in case clampOffsets height width rowCount columnCount t2 of
           Inl e \<Rightarrow> Inl e
         | Inr t3 \<Rightarrow>
             (case calculateVisibleRows height rowCount t3 of
                Inl e \<Rightarrow> Inl e
              | Inr (rs, allRows) \<Rightarrow>
                  (case calculateColumnWidths t3 of
                     Inl e \<Rightarrow> Inl e
                   | Inr ws \<Rightarrow>
                       (case effectiveXOffset t3 ws of
                          Inl e \<Rightarrow> Inl e
                        | Inr xo \<Rightarrow>
                            (case slice ws 0 (fixedColumns t3) of
                               Inl e \<Rightarrow> Inl e
                             | Inr fixedWidths \<Rightarrow>
                                 Inr (t3, \<lparr>rows = rs, columnWidths = ws, xOffset = xo,
                                           fixedColumnsWidth =
                                             effectiveColumnsWidth t3 fixedWidths\<rparr>))))))"

subsection \<open>Moving the selection\<close>

text \<open>
  The scans of \<open>moveSelectionForward\<close> and \<open>moveSelectionBackwards\<close> on the position
  (row, column). The loops have no bound of their own: they end at a selectable cell or
  at the final cell, and run forever when the walk meets neither. \<open>None\<close> is the run
  that does not return; \<open>Some (found, row, column)\<close> is the result and the position
  where the scan stopped.
\<close>

partial_function (option) forwardScan ::
  "tableDefaultContent \<Rightarrow> int \<Rightarrow> int \<Rightarrow> int \<Rightarrow> int \<Rightarrow> int \<Rightarrow> int \<Rightarrow> (bool \<times> int \<times> int) option"
where
  "forwardScan c lastCol rowCount finalRow finalColumn row column =
     (if selectableAt c row column then Some (True, row, column)
      else if row = finalRow \<and> column = finalColumn then Some (False, row, column)
      else if column + 1 > lastCol then
             (if row + 1 \<ge> rowCount
              then forwardScan c lastCol rowCount finalRow finalColumn 0 0
              else forwardScan c lastCol rowCount finalRow finalColumn (row + 1) 0)
      else forwardScan c lastCol rowCount finalRow finalColumn row (column + 1))"

partial_function (option) backwardScan ::
  "tableDefaultContent \<Rightarrow> int \<Rightarrow> int \<Rightarrow> int \<Rightarrow> int \<Rightarrow> int \<Rightarrow> int \<Rightarrow> (bool \<times> int \<times> int) option"
where
  "backwardScan c lastCol rowCount finalRow finalColumn row column =
     (if selectableAt c row column then Some (True, row, column)
      else if row = finalRow \<and> column = finalColumn then Some (False, row, column)
      else if column - 1 < 0 then
             (if row - 1 < 0
              then backwardScan c lastCol rowCount finalRow finalColumn (rowCount - 1) lastCol
              else backwardScan c lastCol rowCount finalRow finalColumn (row - 1) lastCol)
      else backwardScan c lastCol rowCount finalRow finalColumn row (column - 1))"

declare forwardScan.simps [code]
declare backwardScan.simps [code]

text \<open>
  \<open>moveSelectionForward\<close> and \<open>moveSelectionBackwards\<close>: the selection is written only
  when a selectable cell was found; the flag is the returned boolean.
\<close>

definition moveSelectionForward :: "int \<Rightarrow> int \<Rightarrow> Table \<Rightarrow> (bool \<times> Table) option" where
  "moveSelectionForward finalRow finalColumn t =
     (let lastCol = GetColumnCount (content t) - 1;
          rowCount = GetRowCount (content t)
      in case forwardScan (content t) lastCol rowCount finalRow finalColumn
                (selectedRow t) (selectedColumn t) of
           None \<Rightarrow> None
         | Some (found, row, column) \<Rightarrow>
             Some (found, if found then t\<lparr>selectedRow := row, selectedColumn := column\<rparr> else t))"

definition moveSelectionBackwards :: "int \<Rightarrow> int \<Rightarrow> Table \<Rightarrow> (bool \<times> Table) option" where
  "moveSelectionBackwards finalRow finalColumn t =
     (let lastCol = GetColumnCount (content t) - 1;
          rowCount = GetRowCount (content t)
      in case backwardScan (content t) lastCol rowCount finalRow finalColumn
                (selectedRow t) (selectedColumn t) of
           None \<Rightarrow> None
         | Some (found, row, column) \<Rightarrow>
             Some (found, if found then t\<lparr>selectedRow := row, selectedColumn := column\<rparr> else t))"

text \<open>
  \<open>if !t.moveSelectionForward(fr, fc) { t.moveSelectionBackwards(br, bc) }\<close> followed by
  \<open>t.clampToSelection = true\<close>, the common tail of the downward operations, and its mirror
  image for the upward ones.
\<close>

definition forwardThenBackwards :: "int \<Rightarrow> int \<Rightarrow> int \<Rightarrow> int \<Rightarrow> Table \<Rightarrow> Table option" where
  "forwardThenBackwards fr fc br bc t =
     (case moveSelectionForward fr fc t of
        None \<Rightarrow> None
      | Some (found, t1) \<Rightarrow>
          if \<not> found then
            (case moveSelectionBackwards br bc t1 of
               None \<Rightarrow> None
             | Some (found2, t2) \<Rightarrow> Some (t2\<lparr>clampToSelection := True\<rparr>))
          else Some (t1\<lparr>clampToSelection := True\<rparr>))"

definition backwardsThenForward :: "int \<Rightarrow> int \<Rightarrow> int \<Rightarrow> int \<Rightarrow> Table \<Rightarrow> Table option" where
  "backwardsThenForward br bc fr fc t =
     (case moveSelectionBackwards br bc t of
        None \<Rightarrow> None
      | Some (found, t1) \<Rightarrow>
          if \<not> found then
            (case moveSelectionForward fr fc t1 of
               None \<Rightarrow> None
             | Some (found2, t2) \<Rightarrow> Some (t2\<lparr>clampToSelection := True\<rparr>))
          else Some (t1\<lparr>clampToSelection := True\<rparr>))"

definition navigateDown :: "Table \<Rightarrow> Table option" where
  "navigateDown t =
     (if rowsSelectable t then
        let rowCount = GetRowCount (content t);
            t1 = t\<lparr>selectedRow := selectedRow t + 1\<rparr>;
            t2 = (if selectedRow t1 \<ge> rowCount then
                    (if wrapVertically t1 then t1\<lparr>selectedRow := 0\<rparr>
                     else t1\<lparr>selectedRow := rowCount - 1\<rparr>)
                  else t1);
            row = selectedRow t2;
            column = selectedColumn t2;
            lastCol = GetColumnCount (content t2) - 1;
            (finalRow, finalColumn) =
               (if wrapVertically t2 then (row, column) else (rowCount - 1, lastCol))
        in forwardThenBackwards finalRow finalColumn row column t2
      else Some (t\<lparr>rowOffset := rowOffset t + 1\<rparr>))"

definition navigateUp :: "Table \<Rightarrow> Table option" where
  "navigateUp t =
     (if rowsSelectable t then
        let rowCount = GetRowCount (content t);
            t1 = t\<lparr>selectedRow := selectedRow t - 1\<rparr>;
            t2 = (if selectedRow t1 < 0 then
                    (if wrapVertically t1 then t1\<lparr>selectedRow := rowCount - 1\<rparr>
                     else t1\<lparr>selectedRow := 0\<rparr>)
                  else t1);
            row = selectedRow t2;
            column = selectedColumn t2;
            (finalRow, finalColumn) = (if wrapVertically t2 then (row, column) else (0, 0))
        in backwardsThenForward finalRow finalColumn row column t2
      else Some (t\<lparr>trackEnd := False, rowOffset := rowOffset t - 1\<rparr>))"

definition navigatePageDown :: "Table \<Rightarrow> Table option" where
  "navigatePageDown t =
     (let offsetAmount = (if visibleRows t - fixedRows t < 0 then 0
                          else visibleRows t - fixedRows t)
      in if rowsSelectable t then
           let row = selectedRow t;
               column = selectedColumn t;
               t1 = t\<lparr>selectedRow := selectedRow t + offsetAmount\<rparr>;
               rowCount = GetRowCount (content t1);
               t2 = (if selectedRow t1 \<ge> rowCount then t1\<lparr>selectedRow := rowCount - 1\<rparr> else t1);
               lastCol = GetColumnCount (content t2) - 1
           in forwardThenBackwards (rowCount - 1) lastCol row column t2
         else Some (t\<lparr>rowOffset := rowOffset t + offsetAmount\<rparr>))"

definition navigatePageUp :: "Table \<Rightarrow> Table option" where
  "navigatePageUp t =
     (let offsetAmount = (if visibleRows t - fixedRows t < 0 then 0
                          else visibleRows t - fixedRows t)
      in if rowsSelectable t then
           let row = selectedRow t;
               column = selectedColumn t;
               t1 = t\<lparr>selectedRow := selectedRow t - offsetAmount\<rparr>;
               t2 = (if selectedRow t1 < 0 then t1\<lparr>selectedRow := 0\<rparr> else t1)
           in backwardsThenForward 0 0 row column t2
         else Some (t\<lparr>trackEnd := False, rowOffset := rowOffset t - offsetAmount\<rparr>))"

text \<open>\<open>navigateHome\<close> and \<open>navigateEnd\<close> ignore the result of the scan.\<close>

definition navigateHome :: "Table \<Rightarrow> Table option" where
  "navigateHome t =
     (if rowsSelectable t then
        let lastCol = GetColumnCount (content t) - 1;
            t1 = t\<lparr>selectedRow := 0, selectedColumn := 0\<rparr>;
            rowCount = GetRowCount (content t1)
        in case moveSelectionForward (rowCount - 1) lastCol t1 of
             None \<Rightarrow> None
           | Some (found, t2) \<Rightarrow> Some (t2\<lparr>clampToSelection := True\<rparr>)
      else Some (t\<lparr>trackEnd := False, rowOffset := 0, columnOffset := 0\<rparr>))"

definition navigateEnd :: "Table \<Rightarrow> Table option" where
  "navigateEnd t =
     (if rowsSelectable t then
        let lastCol = GetColumnCount (content t) - 1;
            rowCount = GetRowCount (content t);
            t1 = t\<lparr>selectedRow := rowCount - 1, selectedColumn := lastCol\<rparr>
        in case moveSelectionBackwards 0 0 t1 of
             None \<Rightarrow> None
           | Some (found, t2) \<Rightarrow> Some (t2\<lparr>clampToSelection := True\<rparr>)
      else Some (t\<lparr>trackEnd := True, columnOffset := 0\<rparr>))"

definition navigateLeft :: "Table \<Rightarrow> Table option" where
  "navigateLeft t =
     (if columnsSelectable t then
        let row = selectedRow t;
            column = selectedColumn t;
            t1 = t\<lparr>selectedColumn := selectedColumn t - 1\<rparr>;
            t2 = (if selectedColumn t1 < 0 then
                    (if wrapHorizontally t1 then
                       let lastCol = GetColumnCount (content t1) - 1;
                           rowCount = GetRowCount (content t1);
                           ta = t1\<lparr>selectedColumn := lastCol, selectedRow := selectedRow t1 - 1\<rparr>
                       in if selectedRow ta < 0 then
                            (if wrapVertically ta then ta\<lparr>selectedRow := rowCount - 1\<rparr>
                             else ta\<lparr>selectedColumn := 0, selectedRow := 0\<rparr>)
                          else ta
                     else t1\<lparr>selectedColumn := 0\<rparr>)
                  else t1);
            (finalRow, finalColumn) =
               (if \<not> wrapHorizontally t2 then (row, 0)
                else if \<not> wrapVertically t2 then (0, 0)
                else (row, column))
        in backwardsThenForward finalRow finalColumn row column t2
      else Some (t\<lparr>columnOffset := max 0 (columnOffset t - 1)\<rparr>))"

definition navigateRight :: "Table \<Rightarrow> Table option" where
  "navigateRight t =
     (if columnsSelectable t then
        let row = selectedRow t;
            column = selectedColumn t;
            t1 = t\<lparr>selectedColumn := selectedColumn t + 1\<rparr>;
            lastCol = GetColumnCount (content t1) - 1;
            rowCount = GetRowCount (content t1);
            t2 = (if selectedColumn t1 > lastCol then
                    (if wrapHorizontally t1 then
                       let ta = t1\<lparr>selectedColumn := 0, selectedRow := selectedRow t1 + 1\<rparr>
                       in if selectedRow ta \<ge> rowCount then
                            (if wrapVertically ta then ta\<lparr>selectedRow := 0\<rparr>
                             else ta\<lparr>selectedColumn := lastCol, selectedRow := rowCount - 1\<rparr>)
                          else ta
                     else t1\<lparr>selectedColumn := lastCol\<rparr>)
                  else t1);
            (finalRow, finalColumn) =
               (if \<not> wrapHorizontally t2 then (row, lastCol)
                else if \<not> wrapVertically t2 then (rowCount - 1, lastCol)
                else (row, column))
        in forwardThenBackwards finalRow finalColumn row column t2
      else
        let maxColumnOffset = GetColumnCount (content t) - fixedColumns t - 1
        in Some (t\<lparr>columnOffset := min (columnOffset t + 1) maxColumnOffset\<rparr>))"

section \<open>Quantities named by the specification\<close>

text \<open>
  The total width of the scrollable columns and the width left for them, for column
  widths \<open>ws\<close>: the values \<open>normalColumnsWidth\<close> and \<open>effectiveWidth\<close> that
  \<open>MaximumXOffset\<close> computes.
\<close>

definition totalScrollableWidth :: "Table \<Rightarrow> int list \<Rightarrow> int" where
  "totalScrollableWidth t ws = effectiveColumnsWidth t (drop (nat (fixedColumns t)) ws)"

definition viewportWidth :: "Table \<Rightarrow> int list \<Rightarrow> int" where
  "viewportWidth t ws = innerRectWidth t - effectiveColumnsWidth t (take (nat (fixedColumns t)) ws)"

section \<open>Example tables\<close>

text \<open>
  Small grids and tables used as concrete inputs. A cell of text \<open>0123456789\<close> is ten
  columns wide.
\<close>

definition notSelectableCell :: TableCell where
  "notSelectableCell = SetSelectable_cell False emptyCell"

definition wideCell :: TableCell where
  "wideCell = emptyCell\<lparr>Text := ''0123456789'', cellWidth := 10\<rparr>"

definition oneLockedCell :: tableDefaultContent where
  "oneLockedCell = \<lparr>cells = [[Some notSelectableCell]], lastColumn = 0\<rparr>"

definition twoColumns :: tableDefaultContent where
  "twoColumns = \<lparr>cells = [[Some emptyCell, Some notSelectableCell]], lastColumn = 1\<rparr>"

definition lockedBelow :: tableDefaultContent where
  "lockedBelow = \<lparr>cells = [[Some emptyCell], [Some notSelectableCell]], lastColumn = 0\<rparr>"

definition onlyRow2 :: tableDefaultContent where
  "onlyRow2 = \<lparr>cells = [[Some notSelectableCell], [Some notSelectableCell], [Some emptyCell],
                         [Some notSelectableCell], [Some notSelectableCell]], lastColumn = 0\<rparr>"

definition onlyRow2Table :: Table where
  "onlyRow2Table = SetSelectable True False (NewTable\<lparr>content := onlyRow2\<rparr>)"

definition hundredRows :: tableDefaultContent where
  "hundredRows = \<lparr>cells = replicate 100 [Some emptyCell], lastColumn = 0\<rparr>"

definition fiveRows :: tableDefaultContent where
  "fiveRows = \<lparr>cells = replicate 5 [Some emptyCell], lastColumn = 0\<rparr>"

definition rowTable :: Table where
  "rowTable = SetSelectable True False
                (NewTable\<lparr>content := hundredRows, innerRectWidth := 20, innerRectHeight := 10\<rparr>)"

definition shortTable :: Table where
  "shortTable = SetSelectable True False
                  (NewTable\<lparr>content := fiveRows, innerRectWidth := 20, innerRectHeight := 10\<rparr>)"

definition grownTable :: Table where
  "grownTable = Select 0 0 (shortTable\<lparr>visibleRows := 10, trackEnd := True, content := hundredRows\<rparr>)"

definition oneWideColumn :: tableDefaultContent where
  "oneWideColumn = \<lparr>cells = [[Some wideCell]], lastColumn = 0\<rparr>"

definition narrowTable :: Table where
  "narrowTable = NewTable\<lparr>content := oneWideColumn, innerRectWidth := 4, innerRectHeight := 1\<rparr>"

definition fiveWideColumns :: tableDefaultContent where
  "fiveWideColumns = \<lparr>cells = [replicate 5 (Some wideCell)], lastColumn = 4\<rparr>"

definition wideTable :: Table where
  "wideTable = NewTable\<lparr>content := fiveWideColumns, innerRectWidth := 20, innerRectHeight := 3\<rparr>"

section \<open>Properties of cells\<close>

text \<open>
  C8. \<open>SetExpansion(e)\<close> with \<open>e < 0\<close> panics at the call and leaves the cell, and so
  its \<open>Expansion\<close> field, as it was; with \<open>e \<ge> 0\<close> it returns normally and the field
  holds \<open>e\<close> afterwards.
\<close>

theorem SetExpansion_panics_iff_negative:
  "(e < 0 \<longrightarrow> (\<exists>msg. snd (SetExpansion e c) = Some (Panic msg)) \<and> fst (SetExpansion e c) = c)
   \<and> (e \<ge> 0 \<longrightarrow> snd (SetExpansion e c) = None \<and> Expansion (fst (SetExpansion e c)) = e)"
  by (simp add: SetExpansion_def)

text \<open>
  Both branches at concrete values: \<open>-3\<close> is refused and the weight stays 0, \<open>2\<close> is
  stored.
\<close>

theorem SetExpansion_panics_iff_negative_witness:
  "(-3 < (0::int) \<and> snd (SetExpansion (-3) emptyCell) \<noteq> None
      \<and> Expansion (fst (SetExpansion (-3) emptyCell)) = 0)
   \<and> ((2::int) \<ge> 0 \<and> snd (SetExpansion 2 emptyCell) = None
      \<and> Expansion (fst (SetExpansion 2 emptyCell)) = 2)"
  using SetExpansion_panics_iff_negative [of "-3" emptyCell]
        SetExpansion_panics_iff_negative [of 2 emptyCell]
  by (auto simp: emptyCell_def)

section \<open>Properties of the cell store\<close>

text \<open>
  The example grids are what \<open>SetCell\<close> builds from the empty content, with the length
  of the text as its display width.
\<close>

lemma example_grids_from_SetCell:
  "SetCell (\<lambda>s. int (length s)) 0 0 notSelectableCell (content NewTable) = Inr oneLockedCell"
  "SetCell (\<lambda>s. int (length s)) 0 0 wideCell (content NewTable) = Inr oneWideColumn"
  by code_simp+

subsection \<open>Inserting a column\<close>

text \<open>
  For a column index that is not negative the loop body of \<open>InsertColumn\<close> puts an
  empty cell in front of position \<open>column\<close> of every row that is long enough and leaves
  the shorter rows alone.
\<close>

lemma shift_insert:
  assumes "k < length r"
  shows "(copy_at (r @ [z]) (Suc k) (drop k (r @ [z])))[k := e] = take k r @ e # drop k r"
proof -
  have "copy_at (r @ [z]) (Suc k) (drop k (r @ [z])) = take (Suc k) r @ drop k r"
    using assms by (simp add: copy_at_def)
  also have "\<dots> = take k r @ r ! k # drop k r"
    using assms by (simp add: take_Suc_conv_app_nth)
  finally show ?thesis
    using assms by (simp add: list_update_append)
qed

lemma insertColumnRow_nonneg:
  "0 \<le> column \<Longrightarrow> insertColumnRow column r =
     Inr (if column \<ge> int (length r) then r
          else take (nat column) r @ Some emptyCell # drop (nat column) r)"
  using shift_insert [of "nat column" r None "Some emptyCell"]
  by (auto simp: insertColumnRow_def slice_from_def Let_def nat_add_distrib)

lemma insertColumnRows_nonneg:
  "0 \<le> column \<Longrightarrow> insertColumnRows column rs =
     Inr (map (\<lambda>r. if column \<ge> int (length r) then r
                    else take (nat column) r @ Some emptyCell # drop (nat column) r) rs)"
  by (induction rs) (simp_all add: insertColumnRow_nonneg)

lemma insertColumnRows_length:
  "insertColumnRows column rs = Inr rs' \<Longrightarrow> length rs' = length rs"
  by (induction rs arbitrary: rs') (auto split: sum.splits)

lemma InsertColumn_nonneg:
  "0 \<le> column \<Longrightarrow> InsertColumn column t =
     Inr (t\<lparr>cells := map (\<lambda>r. if column \<ge> int (length r) then r
                    else take (nat column) r @ Some emptyCell # drop (nat column) r) (cells t)\<rparr>)"
  by (simp add: InsertColumn_def insertColumnRows_nonneg)

lemma InsertColumn_counts:
  assumes "InsertColumn column t = Inr t'"
  shows "GetColumnCount t' = GetColumnCount t \<and> GetRowCount t' = GetRowCount t"
proof -
  from assms obtain cs where cs: "insertColumnRows column (cells t) = Inr cs" and t': "t' = t\<lparr>cells := cs\<rparr>"
    by (auto simp: InsertColumn_def split: sum.splits)
  from insertColumnRows_length [OF cs] t' show ?thesis
    by (simp add: GetColumnCount_def GetRowCount_def)
qed

lemma shifted_nth:
  assumes "0 \<le> column" "column \<le> j" "j < int (length r)"
  shows "(take (nat column) r @ e # drop (nat column) r) ! nat (j + 1) = r ! nat j"
proof -
  have "nat (j + 1) = length (take (nat column) r) + Suc (nat j - nat column)"
    using assms by simp
  then have "(take (nat column) r @ e # drop (nat column) r) ! nat (j + 1)
               = (e # drop (nat column) r) ! Suc (nat j - nat column)"
    by (metis nth_append_length_plus)
  also have "\<dots> = r ! nat j" using assms by simp
  finally show ?thesis .
qed

lemma InsertColumn_shift:
  assumes r: "InsertColumn column t = Inr t'"
    and c: "0 \<le> column" "column \<le> j" "0 \<le> row" "row < GetRowCount t"
           "j < int (length (cells t ! nat row))"
  shows "GetCell t' row (j + 1) = GetCell t row j"
proof -
  let ?r = "cells t ! nat row"
  let ?w = "take (nat column) ?r @ Some emptyCell # drop (nat column) ?r"
  from r c(1) have t': "cells t' = map (\<lambda>r. if column \<ge> int (length r) then r
                    else take (nat column) r @ Some emptyCell # drop (nat column) r) (cells t)"
    by (auto simp: InsertColumn_nonneg)
  have rowlt: "nat row < length (cells t)" using c by (simp add: GetRowCount_def)
  have len': "length (cells t') = length (cells t)" by (simp add: t')
  have nth: "cells t' ! nat row = ?w" using rowlt c by (simp add: t')
  have lw: "int (length ?w) = int (length ?r) + 1" using c by simp
  have in': "\<not> (row < 0 \<or> j + 1 < 0 \<or> row \<ge> int (length (cells t'))
               \<or> j + 1 \<ge> int (length (cells t' ! nat row)))"
    using c lw unfolding len' nth GetRowCount_def by linarith
  have in0: "\<not> (row < 0 \<or> j < 0 \<or> row \<ge> int (length (cells t))
               \<or> j \<ge> int (length (cells t ! nat row)))"
    using c unfolding GetRowCount_def by linarith
  have "GetCell t' row (j + 1) = cells t' ! nat row ! nat (j + 1)"
    unfolding GetCell_def using in' by (rule if_not_P)
  also have "\<dots> = ?w ! nat (j + 1)" by (simp only: nth)
  also have "\<dots> = ?r ! nat j" by (rule shifted_nth [OF c(1) c(2) c(5)])
  also have "\<dots> = GetCell t row j"
    unfolding GetCell_def using in0 by (rule if_not_P [symmetric])
  finally show ?thesis .
qed

text \<open>
  C10. \<open>InsertColumn(c)\<close> returns for every \<open>c \<ge> 0\<close>, and whenever it returns,
  \<open>GetColumnCount\<close> (and the row count) is what it was before: the tracked last column is
  not advanced. Yet in every row long enough the cells at \<open>c\<close> and to its right move one
  position to the right; in particular a cell that sat at the last reported column is
  afterwards at index \<open>GetColumnCount\<close>, which the count no longer covers.
\<close>

theorem InsertColumn_keeps_GetColumnCount:
  "(0 \<le> column \<longrightarrow> (\<exists>t'. InsertColumn column t = Inr t'))
   \<and> (\<forall>t'. InsertColumn column t = Inr t' \<longrightarrow>
        GetColumnCount t' = GetColumnCount t \<and> GetRowCount t' = GetRowCount t
        \<and> (\<forall>row j. 0 \<le> column \<and> column \<le> j \<and> 0 \<le> row \<and> row < GetRowCount t
                    \<and> j < int (length (cells t ! nat row))
              \<longrightarrow> GetCell t' row (j + 1) = GetCell t row j)
        \<and> (\<forall>row. 0 \<le> column \<and> column \<le> lastColumn t \<and> 0 \<le> row \<and> row < GetRowCount t
                  \<and> lastColumn t < int (length (cells t ! nat row))
              \<longrightarrow> GetCell t' row (GetColumnCount t') = GetCell t row (GetColumnCount t - 1)))"
proof (intro conjI allI impI)
  assume "0 \<le> column" then show "\<exists>t'. InsertColumn column t = Inr t'"
    by (simp add: InsertColumn_nonneg)
next
  fix t' assume r: "InsertColumn column t = Inr t'"
  from InsertColumn_counts [OF r]
  show "GetColumnCount t' = GetColumnCount t" and "GetRowCount t' = GetRowCount t" by simp_all
  { fix row j
    assume "0 \<le> column \<and> column \<le> j \<and> 0 \<le> row \<and> row < GetRowCount t
                    \<and> j < int (length (cells t ! nat row))"
    then show "GetCell t' row (j + 1) = GetCell t row j"
      using InsertColumn_shift [OF r] by blast }
  { fix row
    assume a: "0 \<le> column \<and> column \<le> lastColumn t \<and> 0 \<le> row \<and> row < GetRowCount t
                  \<and> lastColumn t < int (length (cells t ! nat row))"
    then have ne: "cells t \<noteq> []" by (auto simp: GetRowCount_def)
    then have cc: "GetColumnCount t = lastColumn t + 1" by (simp add: GetColumnCount_def)
    from a InsertColumn_shift [OF r, of "lastColumn t" row]
    have "GetCell t' row (lastColumn t + 1) = GetCell t row (lastColumn t)" by blast
    then show "GetCell t' row (GetColumnCount t') = GetCell t row (GetColumnCount t - 1)"
      using InsertColumn_counts [OF r] cc by simp }
qed

text \<open>
  A row of two cells, column 0 inserted: the count stays 2 and the cell of column 1 is
  found at index 2.
\<close>

theorem InsertColumn_keeps_GetColumnCount_witness:
  "(0::int) \<le> 0 \<and> InsertColumn 0 twoColumns
       = Inr \<lparr>cells = [[Some emptyCell, Some emptyCell, Some notSelectableCell]], lastColumn = 1\<rparr>
   \<and> GetColumnCount twoColumns = 2
   \<and> GetColumnCount \<lparr>cells = [[Some emptyCell, Some emptyCell, Some notSelectableCell]], lastColumn = 1\<rparr> = 2
   \<and> GetCell twoColumns 0 1 = Some notSelectableCell
   \<and> GetCell \<lparr>cells = [[Some emptyCell, Some emptyCell, Some notSelectableCell]], lastColumn = 1\<rparr> 0 2
       = Some notSelectableCell"
proof -
  let ?t' = "\<lparr>cells = [[Some emptyCell, Some emptyCell, Some notSelectableCell]], lastColumn = 1\<rparr>"
  have r: "InsertColumn 0 twoColumns = Inr ?t'" by code_simp
  have g: "GetCell twoColumns 0 1 = Some notSelectableCell" "GetColumnCount twoColumns = 2"
    "lastColumn twoColumns = 1" "GetRowCount twoColumns = 1" "length (cells twoColumns ! nat 0) = 2"
    by (simp_all add: twoColumns_def GetCell_def GetColumnCount_def GetRowCount_def)
  from InsertColumn_keeps_GetColumnCount [of 0 twoColumns] r
  have "GetColumnCount ?t' = GetColumnCount twoColumns"
    and "GetCell ?t' 0 (GetColumnCount ?t') = GetCell twoColumns 0 (GetColumnCount twoColumns - 1)"
    using g by auto
  with r g show ?thesis by simp
qed

subsection \<open>Insert followed by remove\<close>

text \<open>
  Removing the inserted column or row again restores the cells. \<open>RemoveColumn\<close>
  decrements the tracked last column that \<open>InsertColumn\<close> did not advance.
\<close>

lemma removeColumnRow_inserted:
  "0 \<le> column \<Longrightarrow>
   removeColumnRow column (if column \<ge> int (length r) then r
          else take (nat column) r @ Some emptyCell # drop (nat column) r) = r"
  by (auto simp: removeColumnRow_def nat_add_distrib)

lemma InsertColumn_RemoveColumn:
  assumes "0 \<le> column" and "InsertColumn column t = Inr t1"
  shows "cells (RemoveColumn column t1) = cells t"
    and "lastColumn (RemoveColumn column t1)
           = (if column \<le> lastColumn t then lastColumn t - 1 else lastColumn t)"
proof -
  from assms have t1: "t1 = t\<lparr>cells := map (\<lambda>r. if column \<ge> int (length r) then r
                    else take (nat column) r @ Some emptyCell # drop (nat column) r) (cells t)\<rparr>"
    by (simp add: InsertColumn_nonneg)
  show "cells (RemoveColumn column t1) = cells t"
    using assms(1) by (simp add: t1 RemoveColumn_def Let_def o_def removeColumnRow_inserted)
  show "lastColumn (RemoveColumn column t1)
           = (if column \<le> lastColumn t then lastColumn t - 1 else lastColumn t)"
    using assms(1) by (simp add: t1 RemoveColumn_def Let_def)
qed

lemma InsertRow_RemoveRow:
  assumes "0 \<le> row" and "row < GetRowCount t"
  shows "\<exists>t1. InsertRow row t = Inr t1 \<and> RemoveRow row t1 = t
              \<and> GetRowCount t1 = GetRowCount t + 1"
proof -
  let ?k = "nat row"
  have k: "?k < length (cells t)" using assms by (simp add: GetRowCount_def)
  have "(copy_at (cells t @ [[]]) (Suc ?k) (drop ?k (cells t @ [[]])))[?k := []]
          = take ?k (cells t) @ [] # drop ?k (cells t)"
    by (rule shift_insert [OF k])
  then have 1: "InsertRow row t = Inr (t\<lparr>cells := take ?k (cells t) @ [] # drop ?k (cells t)\<rparr>)"
    using assms k by (simp add: InsertRow_def slice_from_def Let_def nat_add_distrib GetRowCount_def)
  have 2: "RemoveRow row (t\<lparr>cells := take ?k (cells t) @ [] # drop ?k (cells t)\<rparr>) = t"
    using assms k by (simp add: RemoveRow_def nat_add_distrib)
  show ?thesis using 1 2 k by (simp add: GetRowCount_def)
qed

text \<open>
  C6. The claim that \<open>InsertColumn(c)\<close> followed by \<open>RemoveColumn(c)\<close> leaves the
  reported dimensions unchanged fails on the code: on the grid of one cell the pair
  restores the cells, but \<open>GetColumnCount\<close> goes from 1 to 0 although column 0 still holds
  the cell.
\<close>

theorem InsertColumn_RemoveColumn_loses_column:
  "GetColumnCount oneLockedCell = 1
   \<and> InsertColumn 0 oneLockedCell
       = Inr \<lparr>cells = [[Some emptyCell, Some notSelectableCell]], lastColumn = 0\<rparr>
   \<and> RemoveColumn 0 \<lparr>cells = [[Some emptyCell, Some notSelectableCell]], lastColumn = 0\<rparr>
       = \<lparr>cells = [[Some notSelectableCell]], lastColumn = -1\<rparr>
   \<and> GetColumnCount \<lparr>cells = [[Some notSelectableCell]], lastColumn = -1\<rparr> = 0
   \<and> GetCell \<lparr>cells = [[Some notSelectableCell]], lastColumn = -1\<rparr> 0 0 = Some notSelectableCell"
  by code_simp

subsection \<open>Negative indices\<close>

text \<open>
  C7. The claim that no structural mutator ever panics fails on the code: \<open>InsertRow\<close>
  and \<open>InsertColumn\<close> guard only the upper bound, so a negative index reaches the slice
  expressions and panics, on a grid with cells and, for \<open>InsertRow\<close>, on the empty grid
  too. \<open>RemoveRow\<close> and \<open>RemoveColumn\<close> test for a negative index and return.
\<close>

theorem Insert_negative_index_panics:
  "InsertRow (-1) oneLockedCell = Inl SliceBounds
   \<and> InsertColumn (-1) oneLockedCell = Inl SliceBounds
   \<and> InsertRow (-1) (content NewTable) = Inl SliceBounds
   \<and> RemoveRow (-1) oneLockedCell = oneLockedCell
   \<and> RemoveColumn (-1) oneLockedCell = oneLockedCell"
  by code_simp

section \<open>Properties of the offsets\<close>

subsection \<open>Setting the fixed rows and columns\<close>

text \<open>
  C9. \<open>SetFixed(rows, columns)\<close> stores both counts and sets the column offset to 0
  whatever it was, so a table in continuous mode (column offset \<open>-1\<close>) is back in
  discrete mode and its horizontal offset is 0; the row offset, \<open>xScroll\<close> and
  \<open>trackEnd\<close> keep their values.
\<close>

theorem SetFixed_resets_columnOffset:
  "fixedRows (SetFixed r c t) = r \<and> fixedColumns (SetFixed r c t) = c
   \<and> columnOffset (SetFixed r c t) = 0
   \<and> rowOffset (SetFixed r c t) = rowOffset t \<and> xScroll (SetFixed r c t) = xScroll t
   \<and> trackEnd (SetFixed r c t) = trackEnd t
   \<and> columnOffset (SetXScroll x t) = -1
   \<and> GetOffset (SetFixed r c (SetXScroll x t)) = (rowOffset t, 0)
   \<and> xScroll (SetFixed r c (SetXScroll x t)) = x
   \<and> effectiveXOffset (SetFixed r c (SetXScroll x t)) ws = Inr 0"
  by (simp add: SetFixed_def SetXScroll_def GetOffset_def effectiveXOffset_def
        effectiveXOffset_loop.simps)

subsection \<open>What offset resolution changes\<close>

text \<open>
  The second and third part of \<open>clampOffsets\<close> change nothing but the column offset
  and \<open>xScroll\<close>; the first part changes nothing but the row offset and \<open>trackEnd\<close>.
\<close>

lemma calculateColumnWidths_xScroll:
  "calculateColumnWidths (s\<lparr>xScroll := y\<rparr>) = calculateColumnWidths s"
  by (simp add: calculateColumnWidths_def Let_def)

lemma effectiveColumnsWidth_xScroll:
  "effectiveColumnsWidth (s\<lparr>xScroll := y\<rparr>) ws = effectiveColumnsWidth s ws"
  by (simp add: effectiveColumnsWidth_def)

lemma clampColumn_loop_xScroll:
  "clampColumn_loop (s\<lparr>xScroll := y\<rparr>) ws ew m co = clampColumn_loop s ws ew m co"
proof (induction s ws ew m co rule: clampColumn_loop.induct)
  case (1 t columnWidths effectiveWidth maxColumnOffset colOffset)
  show ?case
    apply (subst clampColumn_loop.simps)
    apply (subst (2) clampColumn_loop.simps)
    using 1 by (auto simp: effectiveColumnsWidth_xScroll split: sum.splits)
qed

lemma clampColumn_loop_mono:
  "clampColumn_loop s ws ew m co = Inr co' \<Longrightarrow> co \<le> co'"
proof (induction s ws ew m co rule: clampColumn_loop.induct)
  case (1 t columnWidths effectiveWidth maxColumnOffset colOffset)
  from "1.prems" show ?case
    apply (subst (asm) clampColumn_loop.simps)
    using "1.IH" by (fastforce split: sum.splits if_splits)
qed

lemma columnOffset_rightEdge_shape:
  "columnOffset_rightEdge w c t = Inr t' \<Longrightarrow> t' = t\<lparr>columnOffset := columnOffset t'\<rparr>"
  by (auto simp: columnOffset_rightEdge_def Let_def split: sum.splits)

lemma columnOffset_rightEdge_mono:
  "columnOffset_rightEdge w c t = Inr t' \<Longrightarrow> columnOffset t \<le> columnOffset t'"
  by (auto simp: columnOffset_rightEdge_def Let_def split: sum.splits dest: clampColumn_loop_mono)

lemma columnOffset_rightEdge_xScroll:
  "columnOffset_rightEdge w c s = Inr s' \<Longrightarrow>
   columnOffset_rightEdge w c (s\<lparr>xScroll := y\<rparr>) = Inr (s'\<lparr>xScroll := y\<rparr>)"
  by (auto simp: columnOffset_rightEdge_def Let_def calculateColumnWidths_xScroll
        effectiveColumnsWidth_xScroll clampColumn_loop_xScroll split: sum.splits)

lemma columnOffset_toSelection_shape:
  "columnOffset_toSelection w c t = Inr t' \<Longrightarrow> t' = t\<lparr>columnOffset := columnOffset t'\<rparr>"
  by (auto simp: columnOffset_toSelection_def Let_def split: if_splits
           dest!: columnOffset_rightEdge_shape)

lemma columnOffset_toSelection_nonneg:
  "0 \<le> columnOffset t \<Longrightarrow> columnOffset_toSelection w c t = Inr t' \<Longrightarrow> 0 \<le> columnOffset t'"
  by (auto simp: columnOffset_toSelection_def Let_def split: if_splits
           dest!: columnOffset_rightEdge_mono)

lemma xScroll_columnOffset_commute:
  "(s::Table)\<lparr>xScroll := y, columnOffset := k\<rparr> = s\<lparr>columnOffset := k, xScroll := y\<rparr>"
  by simp

lemma columnOffset_toSelection_xScroll:
  assumes "columnOffset_toSelection w c s = Inr s'"
  shows "columnOffset_toSelection w c (s\<lparr>xScroll := y\<rparr>) = Inr (s'\<lparr>xScroll := y\<rparr>)"
proof -
  define s1 where "s1 = (if selectedColumn s \<ge> fixedColumns s
                            \<and> selectedColumn s < wrap64 (fixedColumns s + columnOffset s)
                         then s\<lparr>columnOffset := selectedColumn s - fixedColumns s\<rparr> else s)"
  have l: "columnOffset_toSelection w c s =
             (if selectedColumn s1 \<ge> fixedColumns s1 then columnOffset_rightEdge w c s1 else Inr s1)"
    by (simp add: columnOffset_toSelection_def s1_def)
  have s1y: "(if selectedColumn s \<ge> fixedColumns s
                 \<and> selectedColumn s < wrap64 (fixedColumns s + columnOffset s)
              then s\<lparr>xScroll := y, columnOffset := selectedColumn s - fixedColumns s\<rparr>
              else s\<lparr>xScroll := y\<rparr>) = s1\<lparr>xScroll := y\<rparr>"
    by (simp add: s1_def)
  have "columnOffset_toSelection w c (s\<lparr>xScroll := y\<rparr>) =
             (let t1 = (if selectedColumn s \<ge> fixedColumns s
                 \<and> selectedColumn s < wrap64 (fixedColumns s + columnOffset s)
              then s\<lparr>xScroll := y, columnOffset := selectedColumn s - fixedColumns s\<rparr>
              else s\<lparr>xScroll := y\<rparr>)
              in if selectedColumn t1 \<ge> fixedColumns t1
                 then columnOffset_rightEdge w c t1 else Inr t1)"
    by (simp add: columnOffset_toSelection_def)
  then have r: "columnOffset_toSelection w c (s\<lparr>xScroll := y\<rparr>) =
             (if selectedColumn s1 \<ge> fixedColumns s1
              then columnOffset_rightEdge w c (s1\<lparr>xScroll := y\<rparr>) else Inr (s1\<lparr>xScroll := y\<rparr>))"
    unfolding s1y by simp
  show ?thesis
  proof (cases "selectedColumn s1 \<ge> fixedColumns s1")
    case True
    with assms l have "columnOffset_rightEdge w c s1 = Inr s'" by simp
    from columnOffset_rightEdge_xScroll [OF this] True r show ?thesis by simp
  next
    case False
    with assms l r show ?thesis by simp
  qed
qed

lemma xScroll_toSelection_shape:
  "xScroll_toSelection w t = Inr t' \<Longrightarrow> t' = t\<lparr>xScroll := xScroll t'\<rparr>"
  by (auto simp: xScroll_toSelection_def Let_def split: if_splits sum.splits prod.splits)

lemma only_columnOffset:
  "t' = t\<lparr>columnOffset := k\<rparr> \<Longrightarrow> t' = t\<lparr>columnOffset := columnOffset t', xScroll := xScroll t'\<rparr>"
  by simp

lemma only_xScroll:
  "t' = t\<lparr>xScroll := k\<rparr> \<Longrightarrow> t' = t\<lparr>columnOffset := columnOffset t', xScroll := xScroll t'\<rparr>"
  by simp

lemma clampOffsets_selectedColumn_cases:
  assumes "clampOffsets_selectedColumn width columnCount t = Inr t'"
  shows "t' = t \<or> columnOffset_toSelection width columnCount t = Inr t'
    \<or> xScroll_toSelection width t = Inr t'"
  using assms by (auto simp: clampOffsets_selectedColumn_def split: if_splits)

lemma clampOffsets_selectedColumn_shape:
  assumes "clampOffsets_selectedColumn width columnCount t = Inr t'"
  shows "t' = t\<lparr>columnOffset := columnOffset t', xScroll := xScroll t'\<rparr>"
  using clampOffsets_selectedColumn_cases [OF assms]
proof (elim disjE)
  assume "t' = t" then show ?thesis by simp
next
  assume 2: "columnOffset_toSelection width columnCount t = Inr t'"
  show ?thesis by (rule only_columnOffset [OF columnOffset_toSelection_shape [OF 2]])
next
  assume 3: "xScroll_toSelection width t = Inr t'"
  show ?thesis by (rule only_xScroll [OF xScroll_toSelection_shape [OF 3]])
qed

lemma clampOffsets_limits_shape:
  assumes "clampOffsets_limits columnCount t = Inr t'"
  shows "t' = t\<lparr>columnOffset := columnOffset t', xScroll := xScroll t'\<rparr>"
  using assms by (auto simp: clampOffsets_limits_def Let_def split: if_splits sum.splits)

lemma clampOffsets_shape:
  assumes "clampOffsets height width rowCount columnCount t = Inr t'"
  shows "t' = (clampOffsets_rows height rowCount t)
            \<lparr>columnOffset := columnOffset t', xScroll := xScroll t', clampToSelection := False\<rparr>"
proof -
  from assms obtain t1 t2 where
    1: "clampOffsets_selectedColumn width columnCount (clampOffsets_rows height rowCount t) = Inr t1"
    and 2: "clampOffsets_limits columnCount t1 = Inr t2"
    and 3: "t' = t2\<lparr>clampToSelection := False\<rparr>"
    by (auto simp: clampOffsets_def split: sum.splits)
  have "t2 = (clampOffsets_rows height rowCount t)\<lparr>columnOffset := columnOffset t2, xScroll := xScroll t2\<rparr>"
    by (subst clampOffsets_limits_shape [OF 2], subst clampOffsets_selectedColumn_shape [OF 1]) simp
  with 3 show ?thesis by simp
qed

lemma clampOffsets_rows_shape:
  "clampOffsets_rows height rowCount t =
     t\<lparr>rowOffset := rowOffset (clampOffsets_rows height rowCount t),
       trackEnd := trackEnd (clampOffsets_rows height rowCount t)\<rparr>"
  by (simp add: clampOffsets_rows_def rowOffset_toSelection_def rowOffset_floor_def
        rowOffset_trackEnd_def Let_def)

lemma clampOffsets_rows_frame:
  "fixedRows (clampOffsets_rows height rowCount t) = fixedRows t
   \<and> borders (clampOffsets_rows height rowCount t) = borders t
   \<and> selectedRow (clampOffsets_rows height rowCount t) = selectedRow t"
  by (subst clampOffsets_rows_shape, simp)+

lemma clampOffsets_rows_columnOffset:
  "columnOffset (clampOffsets_rows h n s) = columnOffset s"
  by (subst clampOffsets_rows_shape) simp

subsection \<open>The two offset modes\<close>

text \<open>
  In discrete mode (column offset \<open>\<ge> 0\<close>) no step of the layout reads \<open>xScroll\<close>:
  running it on a table with another stored \<open>xScroll\<close> gives the same result, up to that
  stored value. In continuous mode the column offset stays \<open>-1\<close>.
\<close>

lemma rowOffset_toSelection_xScroll:
  "rowOffset_toSelection shr (s\<lparr>xScroll := y\<rparr>) = (rowOffset_toSelection shr s)\<lparr>xScroll := y\<rparr>"
  by (simp add: rowOffset_toSelection_def Let_def)

lemma rowOffset_floor_xScroll:
  "rowOffset_floor (s\<lparr>xScroll := y\<rparr>) = (rowOffset_floor s)\<lparr>xScroll := y\<rparr>"
  by (simp add: rowOffset_floor_def)

lemma rowOffset_trackEnd_xScroll:
  "rowOffset_trackEnd shr n (s\<lparr>xScroll := y\<rparr>) = (rowOffset_trackEnd shr n s)\<lparr>xScroll := y\<rparr>"
  by (simp add: rowOffset_trackEnd_def Let_def)

lemma clampOffsets_rows_xScroll:
  "clampOffsets_rows h n (s\<lparr>xScroll := y\<rparr>) = (clampOffsets_rows h n s)\<lparr>xScroll := y\<rparr>"
  by (simp add: clampOffsets_rows_def screenHeightRows_def Let_def rowOffset_toSelection_xScroll
        rowOffset_floor_xScroll rowOffset_trackEnd_xScroll)

lemma clampOffsets_selectedColumn_discrete:
  assumes d: "0 \<le> columnOffset s" and r: "clampOffsets_selectedColumn w c s = Inr s'"
  shows "clampOffsets_selectedColumn w c (s\<lparr>xScroll := y\<rparr>) = Inr (s'\<lparr>xScroll := y\<rparr>)
         \<and> 0 \<le> columnOffset s'"
proof (cases "clampToSelection s \<and> columnsSelectable s")
  case False
  with r d show ?thesis by (auto simp: clampOffsets_selectedColumn_def)
next
  case True
  with d r have ts: "columnOffset_toSelection w c s = Inr s'"
    by (auto simp: clampOffsets_selectedColumn_def split: if_splits)
  from columnOffset_toSelection_xScroll [OF ts, of y] True d
  have "clampOffsets_selectedColumn w c (s\<lparr>xScroll := y\<rparr>) = Inr (s'\<lparr>xScroll := y\<rparr>)"
    by (simp add: clampOffsets_selectedColumn_def)
  with columnOffset_toSelection_nonneg [OF d ts] show ?thesis by simp
qed

lemma clampOffsets_limits_discrete:
  assumes d: "0 \<le> columnOffset s" and r: "clampOffsets_limits c s = Inr s'"
  shows "clampOffsets_limits c (s\<lparr>xScroll := y\<rparr>) = Inr (s'\<lparr>xScroll := y\<rparr>)
         \<and> 0 \<le> columnOffset s'"
proof -
  define k where "k = (let a = (if columnOffset s \<ge> wrap64 (c - fixedColumns s)
                                then wrap64 (wrap64 (c - fixedColumns s) - 1)
                                else columnOffset s) in if a < 0 then 0 else a)"
  have 1: "clampOffsets_limits c s = Inr (s\<lparr>columnOffset := k\<rparr>)"
    using d by (simp add: clampOffsets_limits_def k_def Let_def)
  have 2: "clampOffsets_limits c (s\<lparr>xScroll := y\<rparr>) = Inr (s\<lparr>columnOffset := k, xScroll := y\<rparr>)"
    using d by (simp add: clampOffsets_limits_def k_def Let_def)
  have "0 \<le> k" by (simp add: k_def Let_def)
  with 1 2 r show ?thesis by auto
qed

lemma clampOffsets_discrete:
  assumes d: "0 \<le> columnOffset s" and r: "clampOffsets h w n c s = Inr s'"
  shows "clampOffsets h w n c (s\<lparr>xScroll := y\<rparr>) = Inr (s'\<lparr>xScroll := y\<rparr>)
         \<and> 0 \<le> columnOffset s'"
proof -
  from r obtain t1 t2 where
    1: "clampOffsets_selectedColumn w c (clampOffsets_rows h n s) = Inr t1"
    and 2: "clampOffsets_limits c t1 = Inr t2"
    and 3: "s' = t2\<lparr>clampToSelection := False\<rparr>"
    by (auto simp: clampOffsets_def split: sum.splits)
  have d0: "0 \<le> columnOffset (clampOffsets_rows h n s)"
    using d by (simp add: clampOffsets_rows_columnOffset)
  note a = clampOffsets_selectedColumn_discrete [OF d0 1, of y]
  note b = clampOffsets_limits_discrete [OF conjunct2 [OF a] 2, of y]
  have "clampOffsets h w n c (s\<lparr>xScroll := y\<rparr>) = Inr (t2\<lparr>xScroll := y, clampToSelection := False\<rparr>)"
    using a b by (simp add: clampOffsets_def clampOffsets_rows_xScroll)
  moreover have "t2\<lparr>xScroll := y, clampToSelection := False\<rparr> = s'\<lparr>xScroll := y\<rparr>"
    using 3 by simp
  ultimately show ?thesis using b 3 by simp
qed

lemma xScroll_update_columnOffset:
  "t' = t\<lparr>xScroll := k\<rparr> \<Longrightarrow> columnOffset t' = columnOffset t"
  by simp

lemma clampOffsets_selectedColumn_continuous:
  assumes d: "columnOffset s = -1" and r: "clampOffsets_selectedColumn w c s = Inr t1"
  shows "columnOffset t1 = -1"
proof -
  from d r have "t1 = s \<or> xScroll_toSelection w s = Inr t1"
    by (auto simp: clampOffsets_selectedColumn_def split: if_splits)
  then show ?thesis
  proof
    assume "t1 = s" with d show ?thesis by simp
  next
    assume "xScroll_toSelection w s = Inr t1"
    from xScroll_update_columnOffset [OF xScroll_toSelection_shape [OF this]] d
    show ?thesis by simp
  qed
qed

lemma clampOffsets_continuous:
  assumes d: "columnOffset s = -1" and r: "clampOffsets h w n c s = Inr s'"
  shows "columnOffset s' = -1"
proof -
  from r obtain t1 t2 where
    1: "clampOffsets_selectedColumn w c (clampOffsets_rows h n s) = Inr t1"
    and 2: "clampOffsets_limits c t1 = Inr t2"
    and 3: "s' = t2\<lparr>clampToSelection := False\<rparr>"
    by (auto simp: clampOffsets_def split: sum.splits)
  have d0: "columnOffset (clampOffsets_rows h n s) = -1"
    using d by (simp add: clampOffsets_rows_columnOffset)
  from clampOffsets_selectedColumn_continuous [OF d0 1] have "columnOffset t1 = -1" .
  with 2 have "columnOffset t2 = -1"
    by (auto simp: clampOffsets_limits_def Let_def split: sum.splits)
  with 3 show ?thesis by simp
qed

lemma ensureValidSelection_xScroll:
  "ensureValidSelection n c (s\<lparr>xScroll := y\<rparr>) = (ensureValidSelection n c s)\<lparr>xScroll := y\<rparr>"
  by (simp add: ensureValidSelection_def Let_def split: prod.splits)

lemma ensureValidSelection_frame:
  "columnOffset (ensureValidSelection n c s) = columnOffset s
   \<and> xScroll (ensureValidSelection n c s) = xScroll s
   \<and> content (ensureValidSelection n c s) = content s
   \<and> fixedColumns (ensureValidSelection n c s) = fixedColumns s
   \<and> clampToSelection (ensureValidSelection n c s) = clampToSelection s
   \<and> columnsSelectable (ensureValidSelection n c s) = columnsSelectable s"
  by (simp add: ensureValidSelection_def Let_def split: prod.splits)

lemma calculateVisibleRows_xScroll:
  "calculateVisibleRows h n (s\<lparr>xScroll := y\<rparr>) = calculateVisibleRows h n s"
  by (simp add: calculateVisibleRows_def)

lemma effectiveXOffset_discrete:
  "columnOffset s \<noteq> -1 \<Longrightarrow> effectiveXOffset (s\<lparr>xScroll := y\<rparr>) ws = effectiveXOffset s ws"
  by (simp add: effectiveXOffset_def cong: sum.case_cong)

lemma Draw_layout_unfold:
  "Draw_layout t =
     (let v = (if borders t then go_div (innerRectHeight t) 2 else innerRectHeight t);
          n = GetRowCount (content t); c = GetColumnCount (content t)
      in case clampOffsets (innerRectHeight t) (innerRectWidth t) n c
                (ensureValidSelection n c (t\<lparr>visibleRows := v\<rparr>)) of
           Inl e \<Rightarrow> Inl e
         | Inr t3 \<Rightarrow>
             (case calculateVisibleRows (innerRectHeight t) n t3 of
                Inl e \<Rightarrow> Inl e
              | Inr (rs, allRows) \<Rightarrow>
                  (case calculateColumnWidths t3 of
                     Inl e \<Rightarrow> Inl e
                   | Inr ws \<Rightarrow>
                       (case effectiveXOffset t3 ws of
                          Inl e \<Rightarrow> Inl e
                        | Inr xo \<Rightarrow>
                            (case slice ws 0 (fixedColumns t3) of
                               Inl e \<Rightarrow> Inl e
                             | Inr fixedWidths \<Rightarrow>
                                 Inr (t3, \<lparr>rows = rs, columnWidths = ws, xOffset = xo,
                                           fixedColumnsWidth =
                                             effectiveColumnsWidth t3 fixedWidths\<rparr>))))))"
  by (cases "borders t") (simp_all add: Draw_layout_def Let_def cong: sum.case_cong prod.case_cong)

lemma xScroll_visibleRows_commute:
  "(s::Table)\<lparr>xScroll := y, visibleRows := v\<rparr> = s\<lparr>visibleRows := v, xScroll := y\<rparr>"
  by simp

lemma clampOffsets_discrete_xScroll_kept:
  assumes d: "0 \<le> columnOffset s" and r: "clampOffsets h w n c s = Inr s'"
  shows "xScroll s' = xScroll s"
proof -
  from clampOffsets_discrete [OF d r, of "xScroll s"] r
  have "s' = s'\<lparr>xScroll := xScroll s\<rparr>" by simp
  then have "xScroll s' = xScroll (s'\<lparr>xScroll := xScroll s\<rparr>)" by simp
  then show ?thesis by simp
qed

lemma Draw_layout_discrete:
  assumes d: "0 \<le> columnOffset u" and r: "Draw_layout u = Inr (t', l)"
  shows "Draw_layout (u\<lparr>xScroll := y\<rparr>) = Inr (t'\<lparr>xScroll := y\<rparr>, l)"
    and "0 \<le> columnOffset t'" and "xScroll t' = xScroll u"
    and "effectiveXOffset_loop (columnWidths l) (fixedColumns t') (columnOffset t') 0 0
           = Inr (xOffset l - columnOffset t')"
proof -
  define v where "v = (if borders u then go_div (innerRectHeight u) 2 else innerRectHeight u)"
  define n where "n = GetRowCount (content u)"
  define c where "c = GetColumnCount (content u)"
  define e where "e = ensureValidSelection n c (u\<lparr>visibleRows := v\<rparr>)"
  from r obtain rs allRows ws xo fw where
    c3: "clampOffsets (innerRectHeight u) (innerRectWidth u) n c e = Inr t'"
    and vr: "calculateVisibleRows (innerRectHeight u) n t' = Inr (rs, allRows)"
    and cw: "calculateColumnWidths t' = Inr ws"
    and ex: "effectiveXOffset t' ws = Inr xo"
    and sl: "slice ws 0 (fixedColumns t') = Inr fw"
    and l: "l = \<lparr>rows = rs, columnWidths = ws, xOffset = xo,
                 fixedColumnsWidth = effectiveColumnsWidth t' fw\<rparr>"
    unfolding Draw_layout_unfold Let_def v_def [symmetric] n_def [symmetric] c_def [symmetric]
      e_def [symmetric]
    by (auto split: sum.splits prod.splits)
  have ed: "0 \<le> columnOffset e" "xScroll e = xScroll u"
    using d ensureValidSelection_frame [of n c "u\<lparr>visibleRows := v\<rparr>"] by (simp_all add: e_def)
  note cd = clampOffsets_discrete [OF ed(1) c3, of y]
  show nn: "0 \<le> columnOffset t'" using cd by simp
  show "xScroll t' = xScroll u"
    using clampOffsets_discrete_xScroll_kept [OF ed(1) c3] ed(2) by simp
  have ey: "ensureValidSelection n c (u\<lparr>xScroll := y, visibleRows := v\<rparr>) = e\<lparr>xScroll := y\<rparr>"
    by (simp only: xScroll_visibleRows_commute ensureValidSelection_xScroll e_def)
  have ne: "columnOffset t' \<noteq> -1" using nn by simp
  show "effectiveXOffset_loop (columnWidths l) (fixedColumns t') (columnOffset t') 0 0
           = Inr (xOffset l - columnOffset t')"
    using ex ne by (auto simp: effectiveXOffset_def l split: sum.splits)
  have "Draw_layout (u\<lparr>xScroll := y\<rparr>) =
     (case clampOffsets (innerRectHeight u) (innerRectWidth u) n c
                (ensureValidSelection n c (u\<lparr>xScroll := y, visibleRows := v\<rparr>)) of
           Inl e \<Rightarrow> Inl e
         | Inr t3 \<Rightarrow>
             (case calculateVisibleRows (innerRectHeight u) n t3 of
                Inl e \<Rightarrow> Inl e
              | Inr (rs, allRows) \<Rightarrow>
                  (case calculateColumnWidths t3 of
                     Inl e \<Rightarrow> Inl e
                   | Inr ws \<Rightarrow>
                       (case effectiveXOffset t3 ws of
                          Inl e \<Rightarrow> Inl e
                        | Inr xo \<Rightarrow>
                            (case slice ws 0 (fixedColumns t3) of
                               Inl e \<Rightarrow> Inl e
                             | Inr fixedWidths \<Rightarrow>
                                 Inr (t3, \<lparr>rows = rs, columnWidths = ws, xOffset = xo,
                                           fixedColumnsWidth =
                                             effectiveColumnsWidth t3 fixedWidths\<rparr>))))))"
    by (subst Draw_layout_unfold)
       (simp add: Let_def v_def n_def c_def cong: sum.case_cong prod.case_cong)
  also have "\<dots> = Inr (t'\<lparr>xScroll := y\<rparr>, l)"
    unfolding ey
    using cd vr cw ex sl ne
    by (simp add: calculateVisibleRows_xScroll calculateColumnWidths_xScroll
          effectiveXOffset_discrete effectiveColumnsWidth_xScroll l)
  finally show "Draw_layout (u\<lparr>xScroll := y\<rparr>) = Inr (t'\<lparr>xScroll := y\<rparr>, l)" .
qed

lemma Draw_layout_continuous:
  assumes d: "columnOffset u = -1" and r: "Draw_layout u = Inr (t', l)"
  shows "columnOffset t' = -1 \<and> xOffset l = xScroll t'"
proof -
  define v where "v = (if borders u then go_div (innerRectHeight u) 2 else innerRectHeight u)"
  define n where "n = GetRowCount (content u)"
  define c where "c = GetColumnCount (content u)"
  define e where "e = ensureValidSelection n c (u\<lparr>visibleRows := v\<rparr>)"
  from r obtain rs allRows ws xo fw where
    c3: "clampOffsets (innerRectHeight u) (innerRectWidth u) n c e = Inr t'"
    and ex: "effectiveXOffset t' ws = Inr xo"
    and l: "l = \<lparr>rows = rs, columnWidths = ws, xOffset = xo,
                 fixedColumnsWidth = effectiveColumnsWidth t' fw\<rparr>"
    unfolding Draw_layout_unfold Let_def v_def [symmetric] n_def [symmetric] c_def [symmetric]
      e_def [symmetric]
    by (auto split: sum.splits prod.splits)
  have "columnOffset e = -1"
    using d ensureValidSelection_frame [of n c "u\<lparr>visibleRows := v\<rparr>"] by (simp add: e_def)
  from clampOffsets_continuous [OF this c3] have m: "columnOffset t' = -1" .
  with ex have "xo = xScroll t'" by (simp add: effectiveXOffset_def)
  with m l show ?thesis by simp
qed

lemma wrap64_range:
  "- (2 ^ 63) \<le> wrap64 x \<and> wrap64 x < 2 ^ 63"
proof -
  have "0 \<le> (x + 2 ^ 63) mod (2 ^ 64 :: int)" and "(x + 2 ^ 63) mod (2 ^ 64 :: int) < 2 ^ 64"
    by simp_all
  then show ?thesis by (simp add: wrap64_def)
qed

lemma wrap64_id:
  "- (2 ^ 63) \<le> x \<Longrightarrow> x < 2 ^ 63 \<Longrightarrow> wrap64 x = x"
  by (simp add: wrap64_def)

lemma clampOffsets_limits_value:
  assumes d: "0 \<le> columnOffset s"
  shows "clampOffsets_limits c s =
           Inr (s\<lparr>columnOffset :=
                    (if columnOffset s < wrap64 (c - fixedColumns s) then columnOffset s
                     else max 0 (wrap64 (wrap64 (c - fixedColumns s) - 1)))\<rparr>)"
  using d by (simp add: clampOffsets_limits_def Let_def max_def)

lemma clampOffsets_limits_bound:
  assumes d: "0 \<le> columnOffset s" and r: "clampOffsets_limits c s = Inr s'"
  shows "columnOffset s' \<le> max 0 (wrap64 (wrap64 (c - fixedColumns s) - 1))"
proof (cases "columnOffset s < wrap64 (c - fixedColumns s)")
  case True
  have hi: "wrap64 (c - fixedColumns s) - 1 < 2 ^ 63"
    using wrap64_range [of "c - fixedColumns s"] by simp
  have lo: "- (2 ^ 63) \<le> wrap64 (c - fixedColumns s) - 1" using True d by simp
  have "wrap64 (wrap64 (c - fixedColumns s) - 1) = wrap64 (c - fixedColumns s) - 1"
    by (rule wrap64_id [OF lo hi])
  with True r clampOffsets_limits_value [OF d, of c] show ?thesis by auto
next
  case False
  with r clampOffsets_limits_value [OF d, of c] show ?thesis by auto
qed

lemma clampOffsets_discrete_value:
  assumes d: "0 \<le> columnOffset s" and r: "clampOffsets h w n c s = Inr s'"
  shows "columnOffset s' \<le> max 0 (wrap64 (wrap64 (c - fixedColumns s) - 1))"
    and "\<not> (clampToSelection s \<and> columnsSelectable s) \<Longrightarrow>
         columnOffset s' = (if columnOffset s < wrap64 (c - fixedColumns s) then columnOffset s
                            else max 0 (wrap64 (wrap64 (c - fixedColumns s) - 1)))"
proof -
  define q where "q = clampOffsets_rows h n s"
  from r obtain t1 t2 where
    1: "clampOffsets_selectedColumn w c q = Inr t1"
    and 2: "clampOffsets_limits c t1 = Inr t2"
    and 3: "s' = t2\<lparr>clampToSelection := False\<rparr>"
    by (auto simp: clampOffsets_def q_def split: sum.splits)
  have qs: "q = s\<lparr>rowOffset := rowOffset q, trackEnd := trackEnd q\<rparr>"
    unfolding q_def by (rule clampOffsets_rows_shape)
  have qf: "columnOffset q = columnOffset s" "fixedColumns q = fixedColumns s"
     "clampToSelection q = clampToSelection s" "columnsSelectable q = columnsSelectable s"
    by (subst qs, simp)+
  have d0: "0 \<le> columnOffset q" using d by (simp add: qf)
  have d1: "0 \<le> columnOffset t1"
    using clampOffsets_selectedColumn_discrete [OF d0 1, of 0] by simp
  have f1: "fixedColumns t1 = fixedColumns s"
    by (subst clampOffsets_selectedColumn_shape [OF 1]) (simp add: qf)
  from clampOffsets_limits_bound [OF d1 2] 3
  show "columnOffset s' \<le> max 0 (wrap64 (wrap64 (c - fixedColumns s) - 1))"
    by (simp add: f1)
  assume ns: "\<not> (clampToSelection s \<and> columnsSelectable s)"
  then have "clampOffsets_selectedColumn w c q = Inr q"
    by (auto simp: clampOffsets_selectedColumn_def qf)
  with 1 have "t1 = q" by simp
  with clampOffsets_limits_value [OF d0, of c] 2 3
  show "columnOffset s' = (if columnOffset s < wrap64 (c - fixedColumns s) then columnOffset s
                            else max 0 (wrap64 (wrap64 (c - fixedColumns s) - 1)))"
    by (auto simp: qf)
qed

lemma Draw_layout_clampOffsets:
  assumes r: "Draw_layout u = Inr (t', l)"
  shows "\<exists>e. clampOffsets (innerRectHeight u) (innerRectWidth u) (GetRowCount (content u))
               (GetColumnCount (content u)) e = Inr t'
             \<and> columnOffset e = columnOffset u \<and> fixedColumns e = fixedColumns u
             \<and> clampToSelection e = clampToSelection u
             \<and> columnsSelectable e = columnsSelectable u"
proof -
  define v where "v = (if borders u then go_div (innerRectHeight u) 2 else innerRectHeight u)"
  define n where "n = GetRowCount (content u)"
  define c where "c = GetColumnCount (content u)"
  define e where "e = ensureValidSelection n c (u\<lparr>visibleRows := v\<rparr>)"
  from r have "\<exists>x. clampOffsets (innerRectHeight u) (innerRectWidth u) n c e = Inr t'"
    unfolding Draw_layout_unfold Let_def v_def [symmetric] n_def [symmetric] c_def [symmetric]
      e_def [symmetric]
    by (auto split: sum.splits prod.splits)
  then have c3: "clampOffsets (innerRectHeight u) (innerRectWidth u) n c e = Inr t'" by simp
  have ef: "columnOffset e = columnOffset u" "fixedColumns e = fixedColumns u"
     "clampToSelection e = clampToSelection u" "columnsSelectable e = columnsSelectable u"
    using ensureValidSelection_frame [of n c "u\<lparr>visibleRows := v\<rparr>"] by (simp_all add: e_def)
  from c3 ef show ?thesis unfolding n_def c_def by blast
qed

lemma Draw_layout_offset_value:
  assumes d: "0 \<le> columnOffset u" and r: "Draw_layout u = Inr (t', l)"
  shows "columnOffset t'
           \<le> max 0 (wrap64 (wrap64 (GetColumnCount (content u) - fixedColumns u) - 1))"
    and "\<not> (clampToSelection u \<and> columnsSelectable u) \<Longrightarrow>
         columnOffset t' =
           (if columnOffset u < wrap64 (GetColumnCount (content u) - fixedColumns u)
            then columnOffset u
            else max 0 (wrap64 (wrap64 (GetColumnCount (content u) - fixedColumns u) - 1)))"
proof -
  from Draw_layout_clampOffsets [OF r] obtain e where
    c3: "clampOffsets (innerRectHeight u) (innerRectWidth u) (GetRowCount (content u))
               (GetColumnCount (content u)) e = Inr t'"
    and ef: "columnOffset e = columnOffset u" "fixedColumns e = fixedColumns u"
     "clampToSelection e = clampToSelection u" "columnsSelectable e = columnsSelectable u"
    by blast
  have de: "0 \<le> columnOffset e" using d ef by simp
  from clampOffsets_discrete_value(1) [OF de c3]
  show "columnOffset t'
           \<le> max 0 (wrap64 (wrap64 (GetColumnCount (content u) - fixedColumns u) - 1))"
    by (simp add: ef)
  assume "\<not> (clampToSelection u \<and> columnsSelectable u)"
  then have "\<not> (clampToSelection e \<and> columnsSelectable e)" by (simp add: ef)
  from clampOffsets_discrete_value(2) [OF de c3 this]
  show "columnOffset t' =
           (if columnOffset u < wrap64 (GetColumnCount (content u) - fixedColumns u)
            then columnOffset u
            else max 0 (wrap64 (wrap64 (GetColumnCount (content u) - fixedColumns u) - 1)))"
    by (simp add: ef)
qed

lemma Draw_layout_one_model:
  assumes r: "Draw_layout u = Inr (t', l)"
  shows "columnOffset t' = -1 \<Longrightarrow> xOffset l = xScroll t'"
    and "columnOffset t' \<noteq> -1 \<Longrightarrow>
         effectiveXOffset_loop (columnWidths l) (fixedColumns t') (columnOffset t') 0 0
           = Inr (xOffset l - columnOffset t')"
proof -
  from r obtain rs ws xo fw where
    ex: "effectiveXOffset t' ws = Inr xo"
    and l: "l = \<lparr>rows = rs, columnWidths = ws, xOffset = xo,
                 fixedColumnsWidth = effectiveColumnsWidth t' fw\<rparr>"
    unfolding Draw_layout_unfold Let_def
    by (auto split: sum.splits prod.splits)
  show "columnOffset t' = -1 \<Longrightarrow> xOffset l = xScroll t'"
    using ex l by (simp add: effectiveXOffset_def)
  show "columnOffset t' \<noteq> -1 \<Longrightarrow>
         effectiveXOffset_loop (columnWidths l) (fixedColumns t') (columnOffset t') 0 0
           = Inr (xOffset l - columnOffset t')"
    using ex l by (auto simp: effectiveXOffset_def split: sum.splits)
qed

text \<open>
  C4, as the code has it. After \<open>SetXScroll(x)\<close> the column offset reads \<open>-1\<close>, and a
  layout that returns is in continuous mode: its horizontal offset is the (clamped)
  \<open>xScroll\<close>. After \<open>SetOffset(row, col)\<close> with \<open>col \<ge> 0\<close> the column offset reads
  \<open>col\<close>, and a layout that returns is in discrete mode and ignores the stored \<open>xScroll\<close>:
  \<open>xScroll\<close> is untouched, the horizontal offset is the sum over the skipped columns plus
  the column offset, and the whole result is the same for every stored value of
  \<open>xScroll\<close>. The column offset that the layout uses lies between 0 and the last
  scrollable column, \<open>columnCount - fixedColumns - 1\<close> as Go computes it; when no clamp to
  a selected column is pending it is \<open>col\<close> itself if \<open>col\<close> is below the number of
  scrollable columns, and the last scrollable column (or 0) otherwise. No draw uses both
  models, from any state \<open>u\<close>: a draw entered in continuous mode stays in it, a draw
  entered with a column offset \<open>\<ge> 0\<close> stays discrete and does not read \<open>xScroll\<close>, and
  every draw takes its horizontal offset from exactly the model that
  \<open>t.columnOffset == -1\<close> selects.
\<close>

theorem offset_modes_exclusive:
  "GetOffset (SetXScroll x t) = (rowOffset t, -1)
   \<and> (\<forall>t' l. Draw_layout (SetXScroll x t) = Inr (t', l)
          \<longrightarrow> columnOffset t' = -1 \<and> xOffset l = xScroll t')
   \<and> (0 \<le> col \<longrightarrow>
        GetOffset (SetOffset row col t) = (row, col)
        \<and> (\<forall>t' l. Draw_layout (SetOffset row col t) = Inr (t', l) \<longrightarrow>
               0 \<le> columnOffset t'
               \<and> columnOffset t' \<le> max 0 (wrap64 (wrap64 (GetColumnCount (content t) - fixedColumns t) - 1))
               \<and> (\<not> (clampToSelection t \<and> columnsSelectable t) \<longrightarrow>
                    columnOffset t' = (if col < wrap64 (GetColumnCount (content t) - fixedColumns t)
                                       then col
                                       else max 0 (wrap64 (wrap64 (GetColumnCount (content t) - fixedColumns t) - 1))))
               \<and> xScroll t' = xScroll t
               \<and> effectiveXOffset_loop (columnWidths l) (fixedColumns t') (columnOffset t') 0 0
                     = Inr (xOffset l - columnOffset t')
               \<and> (\<forall>y. Draw_layout (SetOffset row col (t\<lparr>xScroll := y\<rparr>))
                          = Inr (t'\<lparr>xScroll := y\<rparr>, l))))
   \<and> (\<forall>t' l. Draw_layout u = Inr (t', l) \<longrightarrow>
          (columnOffset u = -1 \<longrightarrow> columnOffset t' = -1)
          \<and> (0 \<le> columnOffset u \<longrightarrow>
                 0 \<le> columnOffset t' \<and> xScroll t' = xScroll u
                 \<and> (\<forall>y. Draw_layout (u\<lparr>xScroll := y\<rparr>) = Inr (t'\<lparr>xScroll := y\<rparr>, l)))
          \<and> (columnOffset t' = -1 \<longrightarrow> xOffset l = xScroll t')
          \<and> (columnOffset t' \<noteq> -1 \<longrightarrow>
                 effectiveXOffset_loop (columnWidths l) (fixedColumns t') (columnOffset t') 0 0
                   = Inr (xOffset l - columnOffset t')))"
proof (intro conjI allI impI)
  show "GetOffset (SetXScroll x t) = (rowOffset t, -1)"
    by (simp add: GetOffset_def SetXScroll_def)
next
  fix t' l assume r: "Draw_layout (SetXScroll x t) = Inr (t', l)"
  have "columnOffset (SetXScroll x t) = -1" by (simp add: SetXScroll_def)
  from Draw_layout_continuous [OF this r]
  show "columnOffset t' = -1" and "xOffset l = xScroll t'" by simp_all
next
  show "GetOffset (SetOffset row col t) = (row, col)"
    by (simp add: GetOffset_def SetOffset_def)
next
  fix t' l assume c: "0 \<le> col" and r: "Draw_layout (SetOffset row col t) = Inr (t', l)"
  have d: "0 \<le> columnOffset (SetOffset row col t)" using c by (simp add: SetOffset_def)
  show "0 \<le> columnOffset t'" by (rule Draw_layout_discrete(2) [OF d r])
  show "columnOffset t' \<le> max 0 (wrap64 (wrap64 (GetColumnCount (content t) - fixedColumns t) - 1))"
    using Draw_layout_offset_value(1) [OF d r] by (simp add: SetOffset_def)
  show "xScroll t' = xScroll t"
    using Draw_layout_discrete(3) [OF d r] by (simp add: SetOffset_def)
  show "effectiveXOffset_loop (columnWidths l) (fixedColumns t') (columnOffset t') 0 0
          = Inr (xOffset l - columnOffset t')"
    by (rule Draw_layout_discrete(4) [OF d r])
  { fix y
    have "SetOffset row col (t\<lparr>xScroll := y\<rparr>) = (SetOffset row col t)\<lparr>xScroll := y\<rparr>"
      by (simp add: SetOffset_def)
    then show "Draw_layout (SetOffset row col (t\<lparr>xScroll := y\<rparr>)) = Inr (t'\<lparr>xScroll := y\<rparr>, l)"
      using Draw_layout_discrete(1) [OF d r, of y] by simp }
  { assume "\<not> (clampToSelection t \<and> columnsSelectable t)"
    then have "\<not> (clampToSelection (SetOffset row col t) \<and> columnsSelectable (SetOffset row col t))"
      by (simp add: SetOffset_def)
    from Draw_layout_offset_value(2) [OF d r this]
    show "columnOffset t' = (if col < wrap64 (GetColumnCount (content t) - fixedColumns t)
                             then col
                             else max 0 (wrap64 (wrap64 (GetColumnCount (content t) - fixedColumns t) - 1)))"
      by (simp add: SetOffset_def) }
next
  fix t' l assume r: "Draw_layout u = Inr (t', l)"
  { assume "columnOffset u = -1"
    from Draw_layout_continuous [OF this r] show "columnOffset t' = -1" by simp }
  { assume d: "0 \<le> columnOffset u"
    show "0 \<le> columnOffset t'" by (rule Draw_layout_discrete(2) [OF d r])
    show "xScroll t' = xScroll u" by (rule Draw_layout_discrete(3) [OF d r])
    fix y
    show "Draw_layout (u\<lparr>xScroll := y\<rparr>) = Inr (t'\<lparr>xScroll := y\<rparr>, l)"
      by (rule Draw_layout_discrete(1) [OF d r]) }
  { assume "columnOffset t' = -1"
    then show "xOffset l = xScroll t'" by (rule Draw_layout_one_model(1) [OF r]) }
  { assume "columnOffset t' \<noteq> -1"
    then show "effectiveXOffset_loop (columnWidths l) (fixedColumns t') (columnOffset t') 0 0
                 = Inr (xOffset l - columnOffset t')"
      by (rule Draw_layout_one_model(2) [OF r]) }
qed

text \<open>
  \<open>SetXScroll(5)\<close> then \<open>SetOffset(0, 3)\<close> on a table of five columns of width 10, with
  no selection: the layout uses column offset 3 (horizontal offset
  \<open>10 + 10 + 10 + 3 = 33\<close>), not 5, and the same with 77 stored in \<open>xScroll\<close>.
\<close>

lemma wideTable_draw:
  "Draw_layout (SetOffset 0 3 (SetXScroll 5 wideTable))
     = Inr ((SetOffset 0 3 (SetXScroll 5 wideTable))\<lparr>visibleRows := 3, trackEnd := True\<rparr>,
            \<lparr>rows = [0], columnWidths = [10, 10, 10, 10, 10], xOffset = 33,
               fixedColumnsWidth = 0\<rparr>)"
  by code_simp

lemma wideTable_draw_continuous:
  "Draw_layout (SetXScroll 5 wideTable)
     = Inr ((SetXScroll 5 wideTable)\<lparr>visibleRows := 3, trackEnd := True\<rparr>,
            \<lparr>rows = [0], columnWidths = [10, 10, 10, 10, 10], xOffset = 5,
               fixedColumnsWidth = 0\<rparr>)"
  by code_simp

lemma wideTable_scrollable:
  "\<not> (clampToSelection (SetXScroll 5 wideTable) \<and> columnsSelectable (SetXScroll 5 wideTable))
   \<and> wrap64 (GetColumnCount (content (SetXScroll 5 wideTable))
                - fixedColumns (SetXScroll 5 wideTable)) = 5"
  by code_simp

theorem offset_modes_exclusive_witness:
  "(0::int) \<le> 3
   \<and> GetOffset (SetXScroll 5 wideTable) = (0, -1)
   \<and> Draw_layout (SetXScroll 5 wideTable)
     = Inr ((SetXScroll 5 wideTable)\<lparr>visibleRows := 3, trackEnd := True\<rparr>,
            \<lparr>rows = [0], columnWidths = [10, 10, 10, 10, 10], xOffset = 5,
               fixedColumnsWidth = 0\<rparr>)
   \<and> \<not> (clampToSelection (SetXScroll 5 wideTable) \<and> columnsSelectable (SetXScroll 5 wideTable))
   \<and> wrap64 (GetColumnCount (content (SetXScroll 5 wideTable))
                - fixedColumns (SetXScroll 5 wideTable)) = 5
   \<and> Draw_layout (SetOffset 0 3 (SetXScroll 5 wideTable))
     = Inr ((SetOffset 0 3 (SetXScroll 5 wideTable))\<lparr>visibleRows := 3, trackEnd := True\<rparr>,
            \<lparr>rows = [0], columnWidths = [10, 10, 10, 10, 10], xOffset = 33,
               fixedColumnsWidth = 0\<rparr>)
   \<and> columnOffset ((SetOffset 0 3 (SetXScroll 5 wideTable))\<lparr>visibleRows := 3, trackEnd := True\<rparr>) = 3
   \<and> Draw_layout (SetOffset 0 3 ((SetXScroll 5 wideTable)\<lparr>xScroll := 77\<rparr>))
     = Inr ((SetOffset 0 3 (SetXScroll 5 wideTable))\<lparr>visibleRows := 3, trackEnd := True, xScroll := 77\<rparr>,
            \<lparr>rows = [0], columnWidths = [10, 10, 10, 10, 10], xOffset = 33,
               fixedColumnsWidth = 0\<rparr>)"
proof -
  let ?s = "SetXScroll 5 wideTable"
  let ?t' = "(SetOffset 0 3 ?s)\<lparr>visibleRows := 3, trackEnd := True\<rparr>"
  let ?l = "\<lparr>rows = [0], columnWidths = [10, 10, 10, 10, 10], xOffset = 33,
               fixedColumnsWidth = 0\<rparr>"
  note inst = offset_modes_exclusive [of 5 wideTable 3 0 ?s]
  note inst2 = offset_modes_exclusive [of 5 ?s 3 0 "SetOffset 0 3 ?s"]
  have c: "(0::int) \<le> 3" by simp
  from inst have 1: "GetOffset ?s = (rowOffset wideTable, -1)" by (rule conjunct1)
  from inst2 c have a: "\<forall>t' l. Draw_layout (SetOffset 0 3 ?s) = Inr (t', l) \<longrightarrow>
               0 \<le> columnOffset t'
               \<and> columnOffset t' \<le> max 0 (wrap64 (wrap64 (GetColumnCount (content ?s) - fixedColumns ?s) - 1))
               \<and> (\<not> (clampToSelection ?s \<and> columnsSelectable ?s) \<longrightarrow>
                    columnOffset t' = (if 3 < wrap64 (GetColumnCount (content ?s) - fixedColumns ?s)
                                       then 3
                                       else max 0 (wrap64 (wrap64 (GetColumnCount (content ?s) - fixedColumns ?s) - 1))))
               \<and> xScroll t' = xScroll ?s
               \<and> effectiveXOffset_loop (columnWidths l) (fixedColumns t') (columnOffset t') 0 0
                     = Inr (xOffset l - columnOffset t')
               \<and> (\<forall>y. Draw_layout (SetOffset 0 3 (?s\<lparr>xScroll := y\<rparr>))
                          = Inr (t'\<lparr>xScroll := y\<rparr>, l))"
    by blast
  from a wideTable_draw have b: "
               (\<not> (clampToSelection ?s \<and> columnsSelectable ?s) \<longrightarrow>
                    columnOffset ?t' = (if 3 < wrap64 (GetColumnCount (content ?s) - fixedColumns ?s)
                                       then 3
                                       else max 0 (wrap64 (wrap64 (GetColumnCount (content ?s) - fixedColumns ?s) - 1))))
               \<and> (\<forall>y. Draw_layout (SetOffset 0 3 (?s\<lparr>xScroll := y\<rparr>))
                          = Inr (?t'\<lparr>xScroll := y\<rparr>, ?l))"
    by blast
  from b have 2: "Draw_layout (SetOffset 0 3 (?s\<lparr>xScroll := 77\<rparr>)) = Inr (?t'\<lparr>xScroll := 77\<rparr>, ?l)"
    by blast
  from b wideTable_scrollable have 4: "columnOffset ?t' = 3" by simp
  have 3: "rowOffset wideTable = 0" by (simp add: wideTable_def NewTable_def)
  from c 1 2 3 4 wideTable_draw wideTable_draw_continuous wideTable_scrollable
  show ?thesis by simp
qed

text \<open>
  C4 as stated fails: the layout after \<open>SetOffset(row, col)\<close> does not always use
  \<open>col\<close>. On the five columns, \<open>SetXScroll(5)\<close> then \<open>SetOffset(0, 7)\<close> draws with column
  offset 4, the last column; and with columns selectable, \<open>SetOffset(0, 1)\<close> then
  \<open>Select(0, 4)\<close> draws with column offset 3, where the selected column fits the width.
\<close>

theorem SetOffset_column_is_clamped:
  "(0::int) \<le> 7
   \<and> GetColumnCount (content wideTable) = 5
   \<and> Draw_layout (SetOffset 0 7 (SetXScroll 5 wideTable))
       = Inr ((SetOffset 0 7 (SetXScroll 5 wideTable))
                 \<lparr>visibleRows := 3, trackEnd := True, columnOffset := 4\<rparr>,
              \<lparr>rows = [0], columnWidths = [10, 10, 10, 10, 10], xOffset = 44,
                 fixedColumnsWidth = 0\<rparr>)
   \<and> columnOffset ((SetOffset 0 7 (SetXScroll 5 wideTable))
                 \<lparr>visibleRows := 3, trackEnd := True, columnOffset := 4\<rparr>) \<noteq> 7
   \<and> Draw_layout (Select 0 4 (SetOffset 0 1 (SetSelectable False True (SetXScroll 5 wideTable))))
       = Inr ((Select 0 4 (SetOffset 0 1 (SetSelectable False True (SetXScroll 5 wideTable))))
                 \<lparr>visibleRows := 3, trackEnd := True, columnOffset := 3,
                  clampToSelection := False\<rparr>,
              \<lparr>rows = [0], columnWidths = [10, 10, 10, 10, 10], xOffset = 33,
                 fixedColumnsWidth = 0\<rparr>)"
  by code_simp

subsection \<open>The row offset\<close>

text \<open>
  C3. The claim that a pending clamp brings the selected row into the visible window
  fails on the code when \<open>trackEnd\<close> is set on entry. A table of five rows drawn at
  height 10 is shorter than the viewport, so the draw sets \<open>trackEnd\<close>. The table then
  grows to 100 rows and \<open>Select(0, 0)\<close> sets \<open>clampToSelection\<close>, the flag that, by the
  comment on the field, makes the next draw keep the selection visible. Neither of the
  two clamp tests fires (row 0 is inside the window of offset 0), so \<open>trackEnd\<close>, which
  only these two branches reset, stays set and overrides the offset with
  \<open>rowCount - screenHeightRows = 90\<close>: rows 90 to 99 are drawn and the selected row 0 is
  not. The same table with \<open>trackEnd\<close> not set keeps offset 0. The concrete example of the
  claim holds: after \<open>Select(55, 0)\<close> on the 100-row table the offset resolves to
  \<open>55 + 1 - 10 = 46\<close> and rows 46 to 55 are drawn.
\<close>

theorem trackEnd_hides_selected_row:
  "Draw_layout shortTable
     = Inr (shortTable\<lparr>visibleRows := 10, trackEnd := True\<rparr>,
            \<lparr>rows = [0, 1, 2, 3, 4], columnWidths = [0], xOffset = 0, fixedColumnsWidth = 0\<rparr>)
   \<and> grownTable = Select 0 0 (shortTable\<lparr>visibleRows := 10, trackEnd := True,
                                            content := hundredRows\<rparr>)
   \<and> rowsSelectable grownTable \<and> clampToSelection grownTable \<and> trackEnd grownTable
   \<and> GetSelection grownTable = (0, 0) \<and> GetOffset grownTable = (0, 0)
   \<and> innerRectHeight grownTable = 10 \<and> innerRectWidth grownTable = 20
   \<and> GetRowCount (content grownTable) = 100 \<and> GetColumnCount (content grownTable) = 1
   \<and> ensureValidSelection 100 1 grownTable = grownTable
   \<and> clampOffsets 10 20 100 1 grownTable
       = Inr (grownTable\<lparr>rowOffset := 90, clampToSelection := False\<rparr>)
   \<and> calculateVisibleRows 10 100 (grownTable\<lparr>rowOffset := 90, clampToSelection := False\<rparr>)
       = Inr (map int [90..<100], map int [0..<100])
   \<and> selectedRow (grownTable\<lparr>rowOffset := 90, clampToSelection := False\<rparr>)
       \<notin> set (map int [90..<100])
   \<and> clampOffsets 10 20 100 1 (grownTable\<lparr>trackEnd := False\<rparr>)
       = Inr (grownTable\<lparr>trackEnd := False, clampToSelection := False\<rparr>)
   \<and> clampOffsets 10 20 100 1 (Select 55 0 rowTable)
       = Inr ((Select 55 0 rowTable)\<lparr>rowOffset := 46, clampToSelection := False\<rparr>)
   \<and> calculateVisibleRows 10 100
         ((Select 55 0 rowTable)\<lparr>rowOffset := 46, clampToSelection := False\<rparr>)
       = Inr (map int [46..<56], map int [0..<100])"
  by code_simp

text \<open>
  The sums of the row block wrap. With one fixed row, the row offset set to
  \<open>2\<^sup>6\<^sup>3 - 1\<close> by \<open>SetOffset\<close> and row 5 selected, \<open>t.fixedRows + t.rowOffset\<close> is
  negative and neither clamp test fires; \<open>rowCount - t.rowOffset\<close> is negative too, which
  sets \<open>trackEnd\<close>, and the offset resolves to 90.
\<close>

lemma rowOffset_toSelection_wraps:
  "wrap64 (1 + 9223372036854775807) = - 9223372036854775808
   \<and> clampOffsets 10 20 100 1
         (Select 5 0 (SetOffset 9223372036854775807 0 (SetFixed 1 0 rowTable)))
       = Inr ((Select 5 0 (SetOffset 9223372036854775807 0 (SetFixed 1 0 rowTable)))
                 \<lparr>rowOffset := 90, trackEnd := True, clampToSelection := False\<rparr>)"
  by code_simp

subsection \<open>The continuous horizontal offset\<close>

lemma calculateColumnWidths_ok:
  "0 \<le> GetColumnCount (content t) \<Longrightarrow>
   \<exists>ws. calculateColumnWidths t = Inr ws \<and> int (length ws) = GetColumnCount (content t)"
  by (simp add: calculateColumnWidths_def Let_def)

lemma calculateColumnWidths_content:
  "content t1 = content t \<Longrightarrow> calculateColumnWidths t1 = calculateColumnWidths t"
  by (simp add: calculateColumnWidths_def Let_def)

lemma slice_prefix:
  "0 \<le> k \<Longrightarrow> k \<le> int (length ws) \<Longrightarrow> slice ws 0 k = Inr (take (nat k) ws)"
  by (simp add: slice_def)

lemma slice_from_suffix:
  "0 \<le> k \<Longrightarrow> k \<le> int (length ws) \<Longrightarrow> slice_from ws k = Inr (drop (nat k) ws)"
  by (simp add: slice_from_def)

lemma MaximumXOffset_value:
  assumes "0 \<le> fixedColumns t" "fixedColumns t \<le> int (length ws)" "calculateColumnWidths t = Inr ws"
  shows "MaximumXOffset t = Inr (max 0 (totalScrollableWidth t ws - viewportWidth t ws + 1))"
  using assms
  by (simp add: MaximumXOffset_def Let_def slice_prefix slice_from_suffix
                totalScrollableWidth_def viewportWidth_def)

lemma MaximumXOffset_returned:
  assumes "MaximumXOffset t = Inr m"
  shows "\<exists>ws. calculateColumnWidths t = Inr ws
              \<and> m = max 0 (totalScrollableWidth t ws - viewportWidth t ws + 1)"
proof -
  from assms obtain ws fw where ws: "calculateColumnWidths t = Inr ws"
    and fw: "slice ws 0 (fixedColumns t) = Inr fw"
    by (auto simp: MaximumXOffset_def Let_def split: sum.splits)
  from fw have "0 \<le> fixedColumns t" and "fixedColumns t \<le> int (length ws)"
    by (auto simp: slice_def split: if_splits)
  from MaximumXOffset_value [OF this ws] assms ws show ?thesis by simp
qed

lemma xScroll_toSelection_returns:
  assumes f0: "0 \<le> fixedColumns t"
    and ws: "calculateColumnWidths t = Inr ws" and fl: "fixedColumns t \<le> int (length ws)"
    and sl: "fixedColumns t \<le> selectedColumn t \<longrightarrow> selectedColumn t < int (length ws)"
  shows "\<exists>x. xScroll_toSelection width t = Inr (t\<lparr>xScroll := x\<rparr>)"
proof (cases "selectedColumn t \<ge> fixedColumns t")
  case False
  then have "xScroll_toSelection width t = Inr (t\<lparr>xScroll := xScroll t\<rparr>)"
    by (simp add: xScroll_toSelection_def)
  then show ?thesis by blast
next
  case True
  obtain l r where lr: "normalColumnLeftRightPositions t ws (selectedColumn t) = Inr (l, r)"
    using True f0 sl by (auto simp: normalColumnLeftRightPositions_def slice_def Let_def)
  let ?ew = "width - effectiveColumnsWidth t (take (nat (fixedColumns t)) ws)"
  have "xScroll_toSelection width t =
          (if wrap64 (l - xScroll t) < 0 then Inr (t\<lparr>xScroll := l\<rparr>)
           else if wrap64 (r - xScroll t) > ?ew then Inr (t\<lparr>xScroll := - (?ew - r)\<rparr>)
           else Inr (t\<lparr>xScroll := xScroll t\<rparr>))"
    using True ws lr f0 fl by (simp add: xScroll_toSelection_def slice_prefix Let_def)
  then have "xScroll_toSelection width t = Inr (t\<lparr>xScroll := l\<rparr>)
      \<or> xScroll_toSelection width t = Inr (t\<lparr>xScroll := - (?ew - r)\<rparr>)
      \<or> xScroll_toSelection width t = Inr (t\<lparr>xScroll := xScroll t\<rparr>)"
    by (simp split: if_splits)
  then show ?thesis by blast
qed

lemma clampOffsets_selectedColumn_returns:
  assumes c: "columnOffset t = -1" and f0: "0 \<le> fixedColumns t"
    and ws: "calculateColumnWidths t = Inr ws" and fl: "fixedColumns t \<le> int (length ws)"
    and sl: "clampToSelection t \<and> columnsSelectable t \<and> fixedColumns t \<le> selectedColumn t
             \<longrightarrow> selectedColumn t < int (length ws)"
  shows "\<exists>x. clampOffsets_selectedColumn width columnCount t = Inr (t\<lparr>xScroll := x\<rparr>)"
proof (cases "clampToSelection t \<and> columnsSelectable t")
  case False
  then have "clampOffsets_selectedColumn width columnCount t = Inr (t\<lparr>xScroll := xScroll t\<rparr>)"
    by (auto simp: clampOffsets_selectedColumn_def)
  then show ?thesis by blast
next
  case True
  with c have e: "clampOffsets_selectedColumn width columnCount t = xScroll_toSelection width t"
    by (simp add: clampOffsets_selectedColumn_def)
  from True sl
  have "fixedColumns t \<le> selectedColumn t \<longrightarrow> selectedColumn t < int (length ws)" by simp
  from xScroll_toSelection_returns [OF f0 ws fl this, of width] e show ?thesis by simp
qed

lemma clampOffsets_selectedColumn_xScroll_only:
  assumes c: "columnOffset t = -1" and r: "clampOffsets_selectedColumn width columnCount t = Inr t1"
  shows "t1 = t\<lparr>xScroll := xScroll t1\<rparr>"
proof -
  from c r have "t1 = t \<or> xScroll_toSelection width t = Inr t1"
    by (auto simp: clampOffsets_selectedColumn_def split: if_splits)
  then show ?thesis
  proof
    assume "t1 = t" then show ?thesis by simp
  next
    assume "xScroll_toSelection width t = Inr t1"
    then show ?thesis by (rule xScroll_toSelection_shape)
  qed
qed

text \<open>
  C5, as the code has it. In continuous mode, whenever offset resolution returns, it
  stays in continuous mode and leaves \<open>xScroll\<close> in
  \<open>[0, max(0, totalScrollableWidth - viewportWidth + 1)]\<close>: the upper bound is the value of
  \<open>MaximumXOffset\<close>, one more than the difference of the two widths. It returns when the
  fixed columns are columns of the grid and, if a clamp to a selected scrollable column
  is pending, that column is one too; the selected column is not read otherwise.
\<close>

theorem clampOffsets_xScroll_bounds:
  assumes c: "columnOffset t = -1"
  shows "(\<forall>t'. clampOffsets height width rowCount columnCount t = Inr t' \<longrightarrow>
            columnOffset t' = -1
            \<and> (\<exists>ws. calculateColumnWidths t = Inr ws
                     \<and> 0 \<le> xScroll t'
                     \<and> xScroll t' \<le> max 0 (totalScrollableWidth t ws - viewportWidth t ws + 1)))
       \<and> (0 \<le> fixedColumns t \<and> fixedColumns t \<le> GetColumnCount (content t)
          \<and> (clampToSelection t \<and> columnsSelectable t \<and> fixedColumns t \<le> selectedColumn t
               \<longrightarrow> selectedColumn t < GetColumnCount (content t))
          \<longrightarrow> (\<exists>t'. clampOffsets height width rowCount columnCount t = Inr t'))"
proof (intro conjI allI impI)
  let ?r = "clampOffsets_rows height rowCount t"
  have r: "content ?r = content t" "fixedColumns ?r = fixedColumns t" "borders ?r = borders t"
      "innerRectWidth ?r = innerRectWidth t" "columnOffset ?r = columnOffset t"
      "selectedColumn ?r = selectedColumn t" "clampToSelection ?r = clampToSelection t"
      "columnsSelectable ?r = columnsSelectable t"
    by (subst clampOffsets_rows_shape, simp)+
  have cr: "columnOffset ?r = -1" using c by (simp add: r)
  { fix t' assume ret: "clampOffsets height width rowCount columnCount t = Inr t'"
    from ret obtain t1 t2 where
      1: "clampOffsets_selectedColumn width columnCount ?r = Inr t1"
      and 2: "clampOffsets_limits columnCount t1 = Inr t2"
      and 3: "t' = t2\<lparr>clampToSelection := False\<rparr>"
      by (auto simp: clampOffsets_def split: sum.splits)
    note s1 = clampOffsets_selectedColumn_xScroll_only [OF cr 1]
    have f1: "content t1 = content t" "fixedColumns t1 = fixedColumns t" "borders t1 = borders t"
      "innerRectWidth t1 = innerRectWidth t" "columnOffset t1 = -1"
      by (subst s1, simp add: r c)+
    from 2 f1(5) obtain m where m: "MaximumXOffset t1 = Inr m"
      and t2: "t2 = t1\<lparr>xScroll := max 0 (min m (xScroll t1))\<rparr>"
      by (auto simp: clampOffsets_limits_def Let_def split: sum.splits)
    from MaximumXOffset_returned [OF m] obtain ws where
      ws1: "calculateColumnWidths t1 = Inr ws"
      and mv: "m = max 0 (totalScrollableWidth t1 ws - viewportWidth t1 ws + 1)"
      by blast
    have ws: "calculateColumnWidths t = Inr ws"
      using ws1 calculateColumnWidths_content [OF f1(1)] by simp
    have mv': "m = max 0 (totalScrollableWidth t ws - viewportWidth t ws + 1)"
      using mv by (simp add: totalScrollableWidth_def viewportWidth_def effectiveColumnsWidth_def f1)
    have x: "xScroll t' = max 0 (min m (xScroll t1))" using 3 t2 by simp
    show "columnOffset t' = -1" using 3 t2 f1(5) by simp
    have "0 \<le> xScroll t'" and "xScroll t' \<le> m" using x mv' by simp_all
    with ws mv'
    show "\<exists>ws. calculateColumnWidths t = Inr ws
               \<and> 0 \<le> xScroll t'
               \<and> xScroll t' \<le> max 0 (totalScrollableWidth t ws - viewportWidth t ws + 1)"
      by blast }
  { assume h: "0 \<le> fixedColumns t \<and> fixedColumns t \<le> GetColumnCount (content t)
          \<and> (clampToSelection t \<and> columnsSelectable t \<and> fixedColumns t \<le> selectedColumn t
               \<longrightarrow> selectedColumn t < GetColumnCount (content t))"
    then have f0: "0 \<le> fixedColumns t" and fc: "fixedColumns t \<le> GetColumnCount (content t)"
      and sc: "clampToSelection t \<and> columnsSelectable t \<and> fixedColumns t \<le> selectedColumn t
               \<longrightarrow> selectedColumn t < GetColumnCount (content t)"
      by simp_all
    from f0 fc calculateColumnWidths_ok [of t] obtain ws where
      ws: "calculateColumnWidths t = Inr ws" and len: "int (length ws) = GetColumnCount (content t)"
      by auto
    have wsr: "calculateColumnWidths ?r = Inr ws"
      using ws calculateColumnWidths_content [OF r(1)] by simp
    have "\<exists>x. clampOffsets_selectedColumn width columnCount ?r = Inr (?r\<lparr>xScroll := x\<rparr>)"
    proof (rule clampOffsets_selectedColumn_returns [where ws = ws])
      show "columnOffset ?r = -1" by (rule cr)
      show "0 \<le> fixedColumns ?r" using f0 by (simp add: r)
      show "calculateColumnWidths ?r = Inr ws" by (rule wsr)
      show "fixedColumns ?r \<le> int (length ws)" using fc by (simp add: r len)
      show "clampToSelection ?r \<and> columnsSelectable ?r \<and> fixedColumns ?r \<le> selectedColumn ?r
             \<longrightarrow> selectedColumn ?r < int (length ws)"
        using sc by (simp add: r len)
    qed
    then obtain x where
      1: "clampOffsets_selectedColumn width columnCount ?r = Inr (?r\<lparr>xScroll := x\<rparr>)" ..
    let ?t1 = "?r\<lparr>xScroll := x\<rparr>"
    have "calculateColumnWidths ?t1 = Inr ws"
      using wsr calculateColumnWidths_content [of ?t1 ?r] by simp
    then have "\<exists>m. MaximumXOffset ?t1 = Inr m"
      using f0 fc len r MaximumXOffset_value [of ?t1 ws] by simp
    then obtain m where m: "MaximumXOffset ?t1 = Inr m" ..
    have 2: "clampOffsets_limits columnCount ?t1 = Inr (?t1\<lparr>xScroll := max 0 (min m x)\<rparr>)"
      using c m r by (simp add: clampOffsets_limits_def Let_def)
    have "clampOffsets height width rowCount columnCount t
            = Inr (?t1\<lparr>xScroll := max 0 (min m x), clampToSelection := False\<rparr>)"
      using 1 2 by (simp add: clampOffsets_def)
    then show "\<exists>t'. clampOffsets height width rowCount columnCount t = Inr t'" by blast }
qed

text \<open>
  One column of width 10 in a viewport of width 4, \<open>xScroll\<close> set to 100: it is
  clamped to a value in \<open>[0, 7]\<close>. On the empty table, \<open>xScroll\<close> set to 3 is clamped to
  a value in \<open>[0, 1]\<close>.
\<close>

theorem clampOffsets_xScroll_bounds_witness:
  "columnOffset (SetXScroll 100 narrowTable) = -1
   \<and> 0 \<le> fixedColumns (SetXScroll 100 narrowTable)
   \<and> fixedColumns (SetXScroll 100 narrowTable) \<le> GetColumnCount (content (SetXScroll 100 narrowTable))
   \<and> \<not> clampToSelection (SetXScroll 100 narrowTable)
   \<and> (\<exists>t'. clampOffsets 1 4 1 1 (SetXScroll 100 narrowTable) = Inr t'
           \<and> columnOffset t' = -1 \<and> 0 \<le> xScroll t' \<and> xScroll t' \<le> 7)
   \<and> columnOffset (SetXScroll 3 NewTable) = -1
   \<and> GetColumnCount (content (SetXScroll 3 NewTable)) = 0
   \<and> (\<exists>t'. clampOffsets 0 0 0 0 (SetXScroll 3 NewTable) = Inr t'
           \<and> columnOffset t' = -1 \<and> 0 \<le> xScroll t' \<and> xScroll t' \<le> 1)"
proof -
  let ?t = "SetXScroll 100 narrowTable"
  let ?e = "SetXScroll 3 NewTable"
  have h: "columnOffset ?t = -1" "0 \<le> fixedColumns ?t"
     "fixedColumns ?t \<le> GetColumnCount (content ?t)" "\<not> clampToSelection ?t"
    by (simp_all add: SetXScroll_def narrowTable_def NewTable_def oneWideColumn_def
          GetColumnCount_def)
  have ws: "calculateColumnWidths ?t = Inr [10]" by code_simp
  have v: "max 0 (totalScrollableWidth ?t [10] - viewportWidth ?t [10] + 1) = 7" by code_simp
  note inst = clampOffsets_xScroll_bounds [OF h(1), of 1 4 1 1]
  from inst h obtain t' where r: "clampOffsets 1 4 1 1 ?t = Inr t'" by blast
  from inst r ws v
  have 1: "\<exists>t'. clampOffsets 1 4 1 1 ?t = Inr t'
           \<and> columnOffset t' = -1 \<and> 0 \<le> xScroll t' \<and> xScroll t' \<le> 7"
    by auto
  have g: "columnOffset ?e = -1" "0 \<le> fixedColumns ?e"
     "fixedColumns ?e \<le> GetColumnCount (content ?e)" "\<not> clampToSelection ?e"
     "GetColumnCount (content ?e) = 0"
    by (simp_all add: SetXScroll_def NewTable_def GetColumnCount_def)
  have wse: "calculateColumnWidths ?e = Inr []" by code_simp
  have ve: "max 0 (totalScrollableWidth ?e [] - viewportWidth ?e [] + 1) = 1" by code_simp
  note inste = clampOffsets_xScroll_bounds [OF g(1), of 0 0 0 0]
  from inste g obtain t'' where re: "clampOffsets 0 0 0 0 ?e = Inr t''" by blast
  from inste re wse ve
  have 2: "\<exists>t'. clampOffsets 0 0 0 0 ?e = Inr t'
           \<and> columnOffset t' = -1 \<and> 0 \<le> xScroll t' \<and> xScroll t' \<le> 1"
    by auto
  from h g 1 2 show ?thesis by blast
qed

text \<open>
  C5 as stated fails: on that table \<open>xScroll\<close> resolves to 7, above
  \<open>totalScrollableWidth - viewportWidth = 10 - 4\<close>.
\<close>

theorem xScroll_exceeds_scrollable_width:
  "columnOffset (SetXScroll 100 narrowTable) = -1
   \<and> innerRectWidth (SetXScroll 100 narrowTable) = 4
   \<and> clampOffsets 1 4 1 1 (SetXScroll 100 narrowTable) = Inr ((SetXScroll 100 narrowTable)\<lparr>xScroll := 7\<rparr>)
   \<and> calculateColumnWidths (SetXScroll 100 narrowTable) = Inr [10]
   \<and> totalScrollableWidth (SetXScroll 100 narrowTable) [10] = 10
   \<and> viewportWidth (SetXScroll 100 narrowTable) [10] = 4
   \<and> \<not> xScroll ((SetXScroll 100 narrowTable)\<lparr>xScroll := 7\<rparr>) \<le> max 0 (10 - 4)"
  by code_simp

section \<open>Properties of the selection\<close>

text \<open>
  C1. The claim that validation leaves the selected row inside \<open>[0, rowCount)\<close> fails on
  the code, in both revisions of \<open>ensureValidSelection\<close>: the scan runs forward only and
  ends at \<open>rowCount\<close>. On the grid whose only cell is not selectable the selected row
  becomes 1; on the grid of two rows where only row 0 is selectable, with row 1
  selected, it becomes 2.
\<close>

theorem ensureValidSelection_row_out_of_range:
  "GetRowCount oneLockedCell = 1 \<and> GetColumnCount oneLockedCell = 1
   \<and> GetSelection (ensureValidSelection 1 1
                      (SetSelectable True False (NewTable\<lparr>content := oneLockedCell\<rparr>))) = (1, 0)
   \<and> GetSelection (ensureValidSelection_table_go 1 1
                      (SetSelectable True False (NewTable\<lparr>content := oneLockedCell\<rparr>))) = (1, 0)
   \<and> GetRowCount lockedBelow = 2 \<and> GetColumnCount lockedBelow = 1
   \<and> selectableAt lockedBelow 0 0
   \<and> GetSelection (ensureValidSelection 2 1
                      (Select 1 0 (SetSelectable True False (NewTable\<lparr>content := lockedBelow\<rparr>))))
       = (2, 0)"
  by code_simp

text \<open>
  C2. The claim that navigation never rests on a cell that is not selectable fails on
  the code. With row 2 the only selectable row of five and no wrapping, the first
  ``down'' from row 0 lands on row 2, the second leaves the selection on row 3 and the
  third on row 4, both not selectable: \<open>navigateDown\<close> hands the position it has just
  stepped to, not the one it came from, to the backward scan, which stops at once.
  \<open>navigatePageDown\<close>, which keeps the position from before the step, returns to row 2
  from there, \<open>navigateHome\<close> and \<open>navigateEnd\<close> find row 2, and \<open>navigateUp\<close> shares
  the slip of \<open>navigateDown\<close>.
\<close>

theorem navigateDown_rests_on_unselectable_row:
  "rowsSelectable onlyRow2Table \<and> \<not> wrapVertically onlyRow2Table
   \<and> GetSelection onlyRow2Table = (0, 0)
   \<and> map_option GetSelection (navigateDown onlyRow2Table) = Some (2, 0)
   \<and> map_option GetSelection (Option.bind (navigateDown onlyRow2Table) navigateDown)
       = Some (3, 0)
   \<and> map_option GetSelection
         (Option.bind (Option.bind (navigateDown onlyRow2Table) navigateDown) navigateDown)
       = Some (4, 0)
   \<and> selectableAt onlyRow2 2 0 \<and> \<not> selectableAt onlyRow2 3 0 \<and> \<not> selectableAt onlyRow2 4 0
   \<and> map_option GetSelection
         (navigatePageDown (onlyRow2Table\<lparr>selectedRow := 2, visibleRows := 1\<rparr>)) = Some (2, 0)
   \<and> map_option GetSelection (navigateUp (onlyRow2Table\<lparr>selectedRow := 2\<rparr>)) = Some (1, 0)
   \<and> map_option GetSelection (navigateHome (onlyRow2Table\<lparr>selectedRow := 4\<rparr>)) = Some (2, 0)
   \<and> map_option GetSelection (navigateEnd onlyRow2Table) = Some (2, 0)"
  by code_simp

end
